theory Spec2Isabelle
  imports Main
begin

text \<open>
  A model of the hook runner and of the create, merge and remove workflows of \<^verbatim>\<open>wt\<close>, a
  command-line tool for git worktrees: plugins/runner.ts, commands/merge.ts,
  commands/remove.ts, commands/create.ts and the parts of core/git.ts they call. Each
  function of the source is a function on an explicit state; what git, the file system,
  the terminal and the user's hooks do is a parameter of the model.
\<close>

section \<open>Strings and paths\<close>

text \<open>
  JavaScript strings are modelled as \<^typ>\<open>string\<close>. The helpers below are the
  library calls the sources make: \<^verbatim>\<open>startsWith\<close>, \<^verbatim>\<open>split\<close> on a one-character
  separator, \<^verbatim>\<open>replace\<close> with a string pattern (first occurrence) and with a global
  literal regular expression (every occurrence, with the \<^verbatim>\<open>$\<close> patterns of the
  replacement string), and the POSIX \<^verbatim>\<open>path.dirname\<close> and \<^verbatim>\<open>path.resolve\<close> of Node.
\<close>

definition starts_with :: "string \<Rightarrow> string \<Rightarrow> bool" where
  "starts_with s p = (take (length p) s = p)"

fun split_on :: "char \<Rightarrow> string \<Rightarrow> string list" where
  "split_on c [] = [[]]"
| "split_on c (x # xs) =
     (if x = c then [] # split_on c xs
      else (case split_on c xs of [] \<Rightarrow> [[x]] | y # ys \<Rightarrow> (x # y) # ys))"

text \<open>\<^verbatim>\<open>s.replace(pat, rep)\<close> for a string pattern: the first occurrence only. Both call
  sites (git.ts) pass the empty replacement, so the replacement is inserted as it is.\<close>

fun replace_first :: "string \<Rightarrow> string \<Rightarrow> string \<Rightarrow> string" where
  "replace_first pat rep [] = (if pat = [] then rep else [])"
| "replace_first pat rep (x # xs) =
     (if starts_with (x # xs) pat then rep @ drop (length pat) (x # xs)
      else x # replace_first pat rep xs)"

text \<open>The replacement string of \<^verbatim>\<open>String.prototype.replace\<close>: \<^verbatim>\<open>$$\<close> is a dollar sign,
  \<^verbatim>\<open>$&\<close> the matched text, \<^verbatim>\<open>$`\<close> the text before the match and \<^verbatim>\<open>$'\<close> the text after
  it. The patterns of create.ts have no capture group, so \<^verbatim>\<open>$1\<close> and the like stay as
  they are.\<close>

fun expand_replacement :: "string \<Rightarrow> string \<Rightarrow> string \<Rightarrow> string \<Rightarrow> string" where
  "expand_replacement [] m b a = []"
| "expand_replacement [c] m b a = [c]"
| "expand_replacement (c # d # rest) m b a =
     (if c = CHR ''$'' then
        (if d = CHR ''$'' then CHR ''$'' # expand_replacement rest m b a
         else if d = CHR ''&'' then m @ expand_replacement rest m b a
         else if d = CHR 0x60 then b @ expand_replacement rest m b a
         else if d = CHR 0x27 then a @ expand_replacement rest m b a
         else c # expand_replacement (d # rest) m b a)
      else c # expand_replacement (d # rest) m b a)"

text \<open>\<^verbatim>\<open>s.replace(/pat/g, rep)\<close> for a literal, non-empty pattern: a scan from the left,
  \<open>passed\<close> being the part of the subject already passed.\<close>

fun replace_all_from :: "string \<Rightarrow> string \<Rightarrow> string \<Rightarrow> string \<Rightarrow> string" where
  "replace_all_from pat rep passed [] = []"
| "replace_all_from pat rep passed (x # xs) =
     (if starts_with (x # xs) pat
      then expand_replacement rep pat passed (drop (length pat - 1) xs)
           @ replace_all_from pat rep (passed @ pat) (drop (length pat - 1) xs)
      else x # replace_all_from pat rep (passed @ [x]) xs)"

definition replace_all :: "string \<Rightarrow> string \<Rightarrow> string \<Rightarrow> string" where
  "replace_all pat rep s = replace_all_from pat rep [] s"

fun join_slash :: "string list \<Rightarrow> string" where
  "join_slash [] = []"
| "join_slash [s] = s"
| "join_slash (s # t # ss) = s @ ''/'' @ join_slash (t # ss)"

text \<open>\<^verbatim>\<open>path.dirname\<close> (POSIX): trailing slashes are passed over, then the last component;
  what is left of the path up to the slash before that component is the result.\<close>

definition path_dirname :: "string \<Rightarrow> string" where
  "path_dirname p =
     (if p = [] then ''.''
      else
        let hasRoot = (hd p = CHR ''/'');
            t = dropWhile (\<lambda>c. c \<noteq> CHR ''/'') (dropWhile (\<lambda>c. c = CHR ''/'') (rev (tl p)))
        in if t = [] then (if hasRoot then ''/'' else ''.'')
           else if hasRoot \<and> length t = 1 then ''//''
           else take (length t) p)"

text \<open>The normalisation inside \<^verbatim>\<open>path.resolve\<close> for an absolute path: empty components
  and \<^verbatim>\<open>.\<close> are dropped, \<^verbatim>\<open>..\<close> removes the component before it and is dropped at the
  root. \<open>acc\<close> holds the components kept so far, last first.\<close>

fun normalize_segments :: "string list \<Rightarrow> string list \<Rightarrow> string list" where
  "normalize_segments acc [] = rev acc"
| "normalize_segments acc (s # ss) =
     (if s = [] \<or> s = ''.'' then normalize_segments acc ss
      else if s = ''..'' then normalize_segments (tl acc) ss
      else normalize_segments (s # acc) ss)"

text \<open>\<^verbatim>\<open>path.resolve(from, to)\<close> where \<open>from\<close> is \<^verbatim>\<open>process.cwd()\<close>, an absolute path: an
  absolute \<open>to\<close> stands alone, an empty one is skipped, any other is appended to \<open>from\<close>.\<close>

definition path_resolve :: "string \<Rightarrow> string \<Rightarrow> string" where
  "path_resolve from to =
     (let joined = (if to = [] then from
                    else if hd to = CHR ''/'' then to
                    else from @ ''/'' @ to)
      in CHR ''/'' # join_slash (normalize_segments [] (split_on (CHR ''/'') joined)))"

text \<open>Decimal digits of a number, as a template literal prints an exit code.\<close>

fun digits :: "nat \<Rightarrow> string" where
  "digits n = (if n < 10 then [''0123456789'' ! n]
               else digits (n div 10) @ [''0123456789'' ! (n mod 10)])"

declare digits.simps [simp del]

definition string_of_int :: "int \<Rightarrow> string" where
  "string_of_int i = (if i < 0 then CHR ''-'' # digits (nat (- i)) else digits (nat i))"

definition quoted :: "string \<Rightarrow> string" where
  "quoted s = [CHR 0x22] @ s @ [CHR 0x22]"

section \<open>Data model\<close>

text \<open>plugins/types.ts. A \<^verbatim>\<open>HookName\<close> is one of six string literals.\<close>

datatype HookName =
  beforeCreate | afterCreate | beforeMerge | afterMerge | beforeRemove | afterRemove

fun hook_name_string :: "HookName \<Rightarrow> string" where
  "hook_name_string beforeCreate = ''beforeCreate''"
| "hook_name_string afterCreate = ''afterCreate''"
| "hook_name_string beforeMerge = ''beforeMerge''"
| "hook_name_string afterMerge = ''afterMerge''"
| "hook_name_string beforeRemove = ''beforeRemove''"
| "hook_name_string afterRemove = ''afterRemove''"

record HookContext =
  repoRoot :: string
  defaultBranch :: string
  branchName :: string
  worktreePath :: string
  sourceWorktree :: "string option"
  targetWorktree :: "string option"

text \<open>core/git.ts.\<close>

record ExecResult =
  stdout :: string
  stderr :: string
  exitCode :: int

record Worktree =
  path :: string
  branch :: "string option"
  isDetached :: bool

text \<open>core/errors.ts, and the plain \<^verbatim>\<open>Error\<close> that the configuration loader throws.\<close>

datatype error =
    WtError string int
  | NotInRepoError
  | DetachedHeadError
  | WorktreeExistsError string
  | MergeConflictError string string
  | WorktreeNotFoundError string
  | OnDefaultBranchError string
  | Error string

fun error_message :: "error \<Rightarrow> string" where
  "error_message (WtError m c) = m"
| "error_message NotInRepoError = ''Not inside a git repository''"
| "error_message DetachedHeadError = ''Detached HEAD; cannot determine current branch''"
| "error_message (WorktreeExistsError p) = ''Worktree already exists at: '' @ p"
| "error_message (MergeConflictError targetBranch targetWt) =
     ''Merge failed due to conflicts. Resolve conflicts in '' @ targetWt @ '' and commit manually.''"
| "error_message (WorktreeNotFoundError b) = ''Cannot find worktree for branch: '' @ b"
| "error_message (OnDefaultBranchError operation) =
     ''Cannot '' @ operation @ '' the default branch worktree''"
| "error_message (Error m) = m"

fun error_exitCode :: "error \<Rightarrow> int" where
  "error_exitCode (WtError m c) = c"
| "error_exitCode e = 1"

text \<open>
  What a run does is recorded in a trace, in program order: the commands handed to
  \<^verbatim>\<open>exec\<close> by git.ts (\<open>Exec\<close>, with the working directory and what came back), the
  commands run for a hook through \<^verbatim>\<open>ctx.exec\<close>, which is \<^verbatim>\<open>execAsync\<close> (\<open>HookExec\<close>), the
  calls of the logger,
  \<^verbatim>\<open>console.error\<close> and \<^verbatim>\<open>console.log\<close> (the success channel), the prompt of the
  confirmation and the redraws of the selection menu. \<open>RunHooks\<close> marks each call of
  \<^verbatim>\<open>runHooks\<close>; it is an observation of the model, not an output of the program.
\<close>

datatype event =
    Exec string "string option" ExecResult
  | HookExec string "string option" ExecResult
  | LogInfo string
  | LogSuccess string
  | LogWarn string
  | LogError string
  | ConsoleError string
  | ConsoleLog string
  | Prompt string
  | Rendered nat
  | ScreenCleared
  | RunHooks HookName

text \<open>The state of a run: \<open>ext\<close> is everything outside the process (repository, file
  system, whatever hooks act on), of a type the model leaves open.\<close>

record 'g world =
  ext :: 'g
  trace :: "event list"

text \<open>How a call ends: it returns, it throws, or it waits for input that never comes.\<close>

datatype 'a outcome = Return 'a | Throw error | Blocked

definition obind ::
  "('g world \<Rightarrow> 'a outcome \<times> 'g world) \<Rightarrow> ('a \<Rightarrow> 'g world \<Rightarrow> 'b outcome \<times> 'g world)
    \<Rightarrow> 'g world \<Rightarrow> 'b outcome \<times> 'g world" where
  "obind m f w =
     (case m w of
        (Return x, w') \<Rightarrow> f x w'
      | (Throw e, w') \<Rightarrow> (Throw e, w')
      | (Blocked, w') \<Rightarrow> (Blocked, w'))"

text \<open>
  A hook function is JavaScript supplied by the user: it acts on the outside state and
  either returns (\<open>None\<close>) or throws; \<open>Some m\<close> is a thrown value whose message, as the
  \<^verbatim>\<open>catch\<close> of \<^verbatim>\<open>executeHookValue\<close> reads it, is \<open>m\<close>. What the function logs or runs
  through its context is part of what it does to the outside. Hook functions are taken
  to terminate.
\<close>

type_synonym 'g HookFunction = "HookContext \<Rightarrow> 'g \<Rightarrow> string option \<times> 'g"

datatype 'g HookItem = Command string | Function "'g HookFunction"

datatype 'g HookValue = Single "'g HookItem" | Sequence "'g HookItem list"

text \<open>\<^verbatim>\<open>WtPlugin\<close>: \<open>hooks\<close> is optional, and so is each of its keys. The runner treats a
  plugin's hook as any \<^verbatim>\<open>HookValue\<close>.\<close>

record 'g WtPlugin =
  name :: string
  hooks :: "(HookName \<Rightarrow> 'g HookValue option) option"

record WtSettings =
  copyGitIgnoredFiles :: bool
  copyNodeModules :: bool
  worktreePathPattern :: string

text \<open>\<^verbatim>\<open>ResolvedConfig\<close>; its field \<^verbatim>\<open>hooks\<close> is \<open>inlineHooks\<close> here.\<close>

record 'g ResolvedConfig =
  settings :: WtSettings
  plugins :: "'g WtPlugin list"
  inlineHooks :: "HookName \<Rightarrow> 'g HookValue option"

record key =
  keyName :: string
  ctrl :: bool

text \<open>
  What the process finds around it: the child processes that \<^verbatim>\<open>exec\<close> starts (the
  \<^verbatim>\<open>ExecResult\<close> it returns and the change to the outside), \<^verbatim>\<open>process.cwd()\<close>,
  \<^verbatim>\<open>process.stdin.isTTY\<close>, the line typed at the confirmation (\<open>None\<close>: none ever
  comes), the key presses at the menu, the configuration that \<^verbatim>\<open>loadConfig\<close> finds
  (\<open>Inl m\<close>: it throws \<^verbatim>\<open>Error(m)\<close>), \<^verbatim>\<open>fs.existsSync\<close>, and the file copy of
  core/files.ts.
\<close>

record 'g env =
  shell :: "string \<Rightarrow> string option \<Rightarrow> 'g \<Rightarrow> ExecResult \<times> 'g"
  process_cwd :: string
  stdin_isTTY :: bool
  stdin_line :: "string option"
  stdin_keys :: "key option list"
  loadConfig :: "string \<Rightarrow> 'g \<Rightarrow> string + 'g ResolvedConfig"
  fs_existsSync :: "string \<Rightarrow> 'g \<Rightarrow> bool"
  copyIgnored :: "string \<Rightarrow> string \<Rightarrow> bool \<Rightarrow> 'g \<Rightarrow> nat \<times> 'g"

definition emit :: "event \<Rightarrow> 'g world \<Rightarrow> 'g world" where
  "emit e w = w\<lparr>trace := trace w @ [e]\<rparr>"

text \<open>\<^verbatim>\<open>for (const line of s.split('\n')) console.error(line)\<close>\<close>

definition console_error_lines :: "string \<Rightarrow> 'g world \<Rightarrow> 'g world" where
  "console_error_lines s w = foldl (\<lambda>v l. emit (ConsoleError l) v) w (split_on (CHR 0x0A) s)"

text \<open>core/git.ts, \<^verbatim>\<open>exec\<close> and \<^verbatim>\<open>execAsync\<close>: the same child process, told apart in
  the trace only.\<close>

definition exec :: "'g env \<Rightarrow> string \<Rightarrow> string option \<Rightarrow> 'g world \<Rightarrow> ExecResult \<times> 'g world" where
  "exec en command dir w =
     (case shell en command dir (ext w) of
        (r, g) \<Rightarrow> (r, emit (Exec command dir r) (w\<lparr>ext := g\<rparr>)))"

definition execAsync :: "'g env \<Rightarrow> string \<Rightarrow> string option \<Rightarrow> 'g world \<Rightarrow> ExecResult \<times> 'g world" where
  "execAsync en command dir w =
     (case shell en command dir (ext w) of
        (r, g) \<Rightarrow> (r, emit (HookExec command dir r) (w\<lparr>ext := g\<rparr>)))"

section \<open>The hook runner (plugins/runner.ts)\<close>

text \<open>\<^verbatim>\<open>executeHookItem\<close>: the result is \<open>Some m\<close> when the item throws.\<close>

definition executeHookItem ::
  "'g env \<Rightarrow> 'g HookItem \<Rightarrow> HookContext \<Rightarrow> 'g world \<Rightarrow> string option \<times> 'g world" where
  "executeHookItem en item ctx w =
     (case item of
        Command c \<Rightarrow>
          (case execAsync en c (Some (worktreePath ctx)) (emit (LogInfo (''Running: '' @ c)) w) of
             (result, w1) \<Rightarrow>
               let w2 = (if stdout result \<noteq> [] then console_error_lines (stdout result) w1 else w1);
                   w3 = (if stderr result \<noteq> [] then console_error_lines (stderr result) w2 else w2)
               in if exitCode result \<noteq> 0
                  then (Some (''Command '' @ quoted c @ '' failed with exit code ''
                              @ string_of_int (exitCode result)), w3)
                  else (None, w3))
      | Function f \<Rightarrow>
          (case f ctx (ext w) of (thrown, g) \<Rightarrow> (thrown, w\<lparr>ext := g\<rparr>)))"

text \<open>The \<^verbatim>\<open>for\<close> loop over an array hook: a throw leaves the loop.\<close>

fun executeHookItems ::
  "'g env \<Rightarrow> 'g HookItem list \<Rightarrow> HookContext \<Rightarrow> 'g world \<Rightarrow> string option \<times> 'g world" where
  "executeHookItems en [] ctx w = (None, w)"
| "executeHookItems en (item # items) ctx w =
     (case executeHookItem en item ctx w of
        (Some m, w') \<Rightarrow> (Some m, w')
      | (None, w') \<Rightarrow> executeHookItems en items ctx w')"

text \<open>\<^verbatim>\<open>executeHookValue\<close>: the \<^verbatim>\<open>try\<close> around both branches, and the \<^verbatim>\<open>catch\<close> that logs
  one warning.\<close>

definition executeHookValue ::
  "'g env \<Rightarrow> 'g HookValue \<Rightarrow> HookContext \<Rightarrow> string \<Rightarrow> 'g world \<Rightarrow> unit outcome \<times> 'g world" where
  "executeHookValue en v ctx label w =
     (case (case v of
              Sequence items \<Rightarrow> executeHookItems en items ctx w
            | Single item \<Rightarrow> executeHookItem en item ctx w) of
        (Some m, w') \<Rightarrow> (Return (), emit (LogWarn (label @ '' failed: '' @ m)) w')
      | (None, w') \<Rightarrow> (Return (), w'))"

text \<open>\<^verbatim>\<open>if (hook)\<close>: functions and arrays are truthy, a string is truthy unless empty.\<close>

fun truthy :: "'g HookValue \<Rightarrow> bool" where
  "truthy (Single (Command c)) = (c \<noteq> [])"
| "truthy v = True"

text \<open>\<^verbatim>\<open>plugin.hooks?.[hookName]\<close>\<close>

definition plugin_hook :: "'g WtPlugin \<Rightarrow> HookName \<Rightarrow> 'g HookValue option" where
  "plugin_hook p h = (case hooks p of None \<Rightarrow> None | Some hs \<Rightarrow> hs h)"

definition plugin_label :: "'g WtPlugin \<Rightarrow> HookName \<Rightarrow> string" where
  "plugin_label p h = ''Plugin '' @ quoted (name p) @ '' '' @ hook_name_string h @ '' hook''"

definition inline_label :: "HookName \<Rightarrow> string" where
  "inline_label h = ''Inline '' @ hook_name_string h @ '' hook''"

text \<open>The loop of \<^verbatim>\<open>runHooks\<close> over \<^verbatim>\<open>config.plugins\<close>.\<close>

fun runPluginHooks ::
  "'g env \<Rightarrow> HookName \<Rightarrow> 'g WtPlugin list \<Rightarrow> HookContext \<Rightarrow> 'g world \<Rightarrow> unit outcome \<times> 'g world" where
  "runPluginHooks en h [] ctx w = (Return (), w)"
| "runPluginHooks en h (p # ps) ctx w =
     (case plugin_hook p h of
        Some hook \<Rightarrow>
          if truthy hook
          then obind (executeHookValue en hook ctx (plugin_label p h))
                 (\<lambda>_. runPluginHooks en h ps ctx) w
          else runPluginHooks en h ps ctx w
      | None \<Rightarrow> runPluginHooks en h ps ctx w)"

definition runHooks ::
  "'g env \<Rightarrow> HookName \<Rightarrow> 'g ResolvedConfig \<Rightarrow> HookContext \<Rightarrow> 'g world \<Rightarrow> unit outcome \<times> 'g world" where
  "runHooks en h config ctx w =
     obind (runPluginHooks en h (plugins config) ctx)
       (\<lambda>_ w1. case inlineHooks config h of
                 Some inlineHook \<Rightarrow>
                   if truthy inlineHook
                   then executeHookValue en inlineHook ctx (inline_label h) w1
                   else (Return (), w1)
               | None \<Rightarrow> (Return (), w1))
       (emit (RunHooks h) w)"

section \<open>Sequencing\<close>

definition ret :: "'a \<Rightarrow> 'g world \<Rightarrow> 'a outcome \<times> 'g world" where
  "ret x w = (Return x, w)"

definition throw :: "error \<Rightarrow> 'g world \<Rightarrow> 'a outcome \<times> 'g world" where
  "throw e w = (Throw e, w)"

definition lift :: "('g world \<Rightarrow> 'a \<times> 'g world) \<Rightarrow> 'g world \<Rightarrow> 'a outcome \<times> 'g world" where
  "lift m w = (case m w of (x, w') \<Rightarrow> (Return x, w'))"

definition tell :: "event \<Rightarrow> 'g world \<Rightarrow> unit outcome \<times> 'g world" where
  "tell e w = (Return (), emit e w)"

text \<open>\<^verbatim>\<open>loadConfig\<close> of plugins/loader.ts: the configuration found from a directory, or
  the \<^verbatim>\<open>Error\<close> it throws for a file that does not load.\<close>

definition load :: "'g env \<Rightarrow> string \<Rightarrow> 'g world \<Rightarrow> 'g ResolvedConfig outcome \<times> 'g world" where
  "load en startDir w =
     (case loadConfig en startDir (ext w) of
        Inl m \<Rightarrow> (Throw (Error m), w)
      | Inr config \<Rightarrow> (Return config, w))"

section \<open>Git operations (core/git.ts)\<close>

definition isInsideGitRepo :: "'g env \<Rightarrow> 'g world \<Rightarrow> bool \<times> 'g world" where
  "isInsideGitRepo en w =
     (case exec en ''git rev-parse --is-inside-work-tree'' None w of
        (result, w') \<Rightarrow> (exitCode result = 0 \<and> stdout result = ''true'', w'))"

definition assertInsideGitRepo :: "'g env \<Rightarrow> 'g world \<Rightarrow> unit outcome \<times> 'g world" where
  "assertInsideGitRepo en w =
     (case isInsideGitRepo en w of
        (inside, w') \<Rightarrow> if \<not> inside then (Throw NotInRepoError, w') else (Return (), w'))"

definition getRepoRoot :: "'g env \<Rightarrow> 'g world \<Rightarrow> string outcome \<times> 'g world" where
  "getRepoRoot en w =
     (case exec en ''git rev-parse --show-toplevel'' None w of
        (result, w') \<Rightarrow>
          if exitCode result \<noteq> 0 then (Throw NotInRepoError, w') else (Return (stdout result), w'))"

definition getCurrentBranch :: "'g env \<Rightarrow> 'g world \<Rightarrow> string outcome \<times> 'g world" where
  "getCurrentBranch en w =
     (case exec en ''git symbolic-ref --quiet --short HEAD'' None w of
        (result, w') \<Rightarrow>
          if exitCode result \<noteq> 0 then (Throw DetachedHeadError, w') else (Return (stdout result), w'))"

definition getDefaultBranch :: "'g env \<Rightarrow> 'g world \<Rightarrow> string \<times> 'g world" where
  "getDefaultBranch en w =
     (case exec en ''git symbolic-ref --quiet refs/remotes/origin/HEAD'' None w of
        (refResult, w1) \<Rightarrow>
          if exitCode refResult = 0 \<and> stdout refResult \<noteq> []
          then (replace_first ''refs/remotes/origin/'' [] (stdout refResult), w1)
          else
            (case exec en ''git show-ref --verify --quiet refs/heads/main'' None w1 of
               (mainResult, w2) \<Rightarrow>
                 if exitCode mainResult = 0 then (''main'', w2)
                 else
                   (case exec en ''git show-ref --verify --quiet refs/heads/master'' None w2 of
                      (masterResult, w3) \<Rightarrow>
                        if exitCode masterResult = 0 then (''master'', w3) else (''main'', w3))))"

definition branchExists :: "'g env \<Rightarrow> string \<Rightarrow> 'g world \<Rightarrow> bool \<times> 'g world" where
  "branchExists en b w =
     (case exec en (''git show-ref --verify --quiet refs/heads/'' @ b) None w of
        (result, w') \<Rightarrow> (exitCode result = 0, w'))"

text \<open>\<^verbatim>\<open>listWorktrees\<close> reads the porcelain listing line by line into \<^verbatim>\<open>current\<close>, a
  \<^verbatim>\<open>Partial<Worktree>\<close>: each field may be missing. \<open>None\<close> for the branch stands for
  both \<^verbatim>\<open>undefined\<close> and \<^verbatim>\<open>null\<close>, which \<^verbatim>\<open>current.branch ?? null\<close> does not tell apart.\<close>

record PartialWorktree =
  currentPath :: "string option"
  currentBranch :: "string option"
  currentIsDetached :: "bool option"

definition emptyPartial :: PartialWorktree where
  "emptyPartial = \<lparr>currentPath = None, currentBranch = None, currentIsDetached = None\<rparr>"

text \<open>\<^verbatim>\<open>if (current.path) worktrees.push({...})\<close>\<close>

definition pushCurrent :: "PartialWorktree \<Rightarrow> Worktree list \<Rightarrow> Worktree list" where
  "pushCurrent cur wts =
     (case currentPath cur of
        None \<Rightarrow> wts
      | Some p \<Rightarrow>
          if p = [] then wts
          else wts @ [\<lparr>path = p, branch = currentBranch cur,
                       isDetached = (case currentIsDetached cur of None \<Rightarrow> False | Some d \<Rightarrow> d)\<rparr>])"

fun parseWorktreeLines :: "string list \<Rightarrow> PartialWorktree \<Rightarrow> Worktree list \<Rightarrow> Worktree list" where
  "parseWorktreeLines [] cur wts = pushCurrent cur wts"
| "parseWorktreeLines (line # rest) cur wts =
     (if starts_with line ''worktree ''
      then parseWorktreeLines rest (cur\<lparr>currentPath := Some (drop 9 line)\<rparr>) wts
      else if starts_with line ''branch ''
      then parseWorktreeLines rest
             (cur\<lparr>currentBranch := Some (replace_first ''refs/heads/'' [] (drop 7 line)),
                  currentIsDetached := Some False\<rparr>) wts
      else if line = ''detached''
      then parseWorktreeLines rest (cur\<lparr>currentIsDetached := Some True, currentBranch := None\<rparr>) wts
      else if line = []
      then parseWorktreeLines rest emptyPartial (pushCurrent cur wts)
      else parseWorktreeLines rest cur wts)"

definition listWorktrees :: "'g env \<Rightarrow> 'g world \<Rightarrow> Worktree list \<times> 'g world" where
  "listWorktrees en w =
     (case exec en ''git worktree list --porcelain'' None w of
        (result, w') \<Rightarrow>
          if exitCode result \<noteq> 0 then ([], w')
          else (parseWorktreeLines (split_on (CHR 0x0A) (stdout result)) emptyPartial [], w'))"

definition findWorktreeByBranch :: "'g env \<Rightarrow> string \<Rightarrow> 'g world \<Rightarrow> Worktree option \<times> 'g world" where
  "findWorktreeByBranch en b w =
     (case listWorktrees en w of
        (worktrees, w') \<Rightarrow> (find (\<lambda>wt. branch wt = Some b) worktrees, w'))"

definition getMainWorktree :: "'g env \<Rightarrow> 'g world \<Rightarrow> Worktree outcome \<times> 'g world" where
  "getMainWorktree en w =
     (case getDefaultBranch en w of
        (d, w1) \<Rightarrow>
          (case findWorktreeByBranch en d w1 of
             (None, w2) \<Rightarrow> (Throw (WorktreeNotFoundError d), w2)
           | (Some wt, w2) \<Rightarrow> (Return wt, w2)))"

definition createWorktree :: "'g env \<Rightarrow> string \<Rightarrow> string \<Rightarrow> bool \<Rightarrow> 'g world \<Rightarrow> ExecResult \<times> 'g world" where
  "createWorktree en p b createBranch w =
     (if createBranch
      then exec en (''git worktree add -b '' @ quoted b @ '' '' @ quoted p) None w
      else exec en (''git worktree add '' @ quoted p @ '' '' @ quoted b) None w)"

definition removeWorktree :: "'g env \<Rightarrow> string \<Rightarrow> 'g world \<Rightarrow> ExecResult \<times> 'g world" where
  "removeWorktree en p w = exec en (''git worktree remove '' @ quoted p) None w"

definition deleteBranch :: "'g env \<Rightarrow> string \<Rightarrow> 'g world \<Rightarrow> ExecResult \<times> 'g world" where
  "deleteBranch en b w = exec en (''git branch -d '' @ quoted b) None w"

definition mergeBranch :: "'g env \<Rightarrow> string \<Rightarrow> string \<Rightarrow> 'g world \<Rightarrow> ExecResult \<times> 'g world" where
  "mergeBranch en b dir w = exec en (''git merge '' @ quoted b) (Some dir) w"

text \<open>\<^verbatim>\<open>root.split('/').pop() ?? 'repo'\<close>: a split always has a last element.\<close>

definition getRepoName :: "'g env \<Rightarrow> 'g world \<Rightarrow> string outcome \<times> 'g world" where
  "getRepoName en w =
     (case getRepoRoot en w of
        (Return root, w') \<Rightarrow> (Return (last (split_on (CHR ''/'') root)), w')
      | (Throw e, w') \<Rightarrow> (Throw e, w')
      | (Blocked, w') \<Rightarrow> (Blocked, w'))"

section \<open>The merge workflow (commands/merge.ts)\<close>

text \<open>\<^verbatim>\<open>mergeCommand(options)\<close>; \<open>keepOption\<close> is \<^verbatim>\<open>options.keep\<close>, which may be missing.\<close>

definition mergeCommand :: "'g env \<Rightarrow> bool option \<Rightarrow> 'g world \<Rightarrow> unit outcome \<times> 'g world" where
  "mergeCommand en keepOption =
     (let keep = (case keepOption of None \<Rightarrow> False | Some k \<Rightarrow> k) in
      obind (assertInsideGitRepo en) (\<lambda>_.
      let originalCwd = process_cwd en in
      obind (getRepoRoot en) (\<lambda>root.
      obind (getCurrentBranch en) (\<lambda>current.
      obind (lift (getDefaultBranch en)) (\<lambda>dflt.
      if current = dflt
      then throw (WtError (''Already on '' @ dflt @ '', nothing to merge'') 1)
      else
      obind (getMainWorktree en) (\<lambda>mainWorktree.
      obind (load en originalCwd) (\<lambda>config.
      let hookContext = \<lparr>repoRoot = root, defaultBranch = dflt, branchName = current,
                         worktreePath = originalCwd, sourceWorktree = None,
                         targetWorktree = Some (path mainWorktree)\<rparr> in
      obind (runHooks en beforeMerge config hookContext) (\<lambda>_.
      obind (tell (LogInfo (''Merging '' @ quoted current @ '' into '' @ quoted dflt @ ''...''))) (\<lambda>_.
      obind (lift (mergeBranch en current (path mainWorktree))) (\<lambda>mergeResult.
      if exitCode mergeResult \<noteq> 0
      then
        obind (tell (LogError ''Merge failed!'')) (\<lambda>_.
        obind (if stderr mergeResult \<noteq> [] then tell (LogError (stderr mergeResult)) else ret ()) (\<lambda>_.
        obind (if stdout mergeResult \<noteq> [] then tell (ConsoleError (stdout mergeResult)) else ret ()) (\<lambda>_.
        obind (tell (LogError (''Resolve conflicts in '' @ path mainWorktree
                               @ '' then commit manually.''))) (\<lambda>_.
        obind (tell (LogInfo (''You are still in: '' @ originalCwd))) (\<lambda>_.
        obind (tell (ConsoleLog originalCwd)) (\<lambda>_.
        throw (MergeConflictError dflt (path mainWorktree))))))))
      else
        obind (tell (LogSuccess (''Merged '' @ quoted current @ '' into '' @ quoted dflt))) (\<lambda>_.
        if keep
        then
          obind (tell (LogInfo ''Kept worktree and branch (--keep flag)'')) (\<lambda>_.
          obind (runHooks en afterMerge config hookContext) (\<lambda>_.
          tell (ConsoleLog (path mainWorktree))))
        else
          obind (runHooks en beforeRemove config hookContext) (\<lambda>_.
          obind (tell (LogInfo (''Removing worktree at '' @ originalCwd @ ''...''))) (\<lambda>_.
          obind (lift (removeWorktree en originalCwd)) (\<lambda>removeResult.
          obind (if exitCode removeResult \<noteq> 0
                 then tell (LogWarn (''Failed to remove worktree: '' @ stderr removeResult))
                 else ret ()) (\<lambda>_.
          obind (lift (deleteBranch en current)) (\<lambda>deleteResult.
          obind (if exitCode deleteResult \<noteq> 0
                 then tell (LogWarn (''Failed to delete branch '' @ quoted current @ '': ''
                                     @ stderr deleteResult))
                 else tell (LogInfo (''Deleted branch '' @ quoted current))) (\<lambda>_.
          obind (runHooks en afterRemove config hookContext) (\<lambda>_.
          obind (runHooks en afterMerge config hookContext) (\<lambda>_.
          obind (tell (LogSuccess (''Merged and cleaned up '' @ quoted current))) (\<lambda>_.
          tell (ConsoleLog (path mainWorktree))))))))))))))))))))))"

section \<open>The remove workflow (commands/remove.ts)\<close>

text \<open>\<^verbatim>\<open>confirmRemoval\<close>: without a terminal it declines; otherwise it asks and takes the
  line typed, \<^verbatim>\<open>answer.toLowerCase() === 'y'\<close>.\<close>

definition confirmRemoval :: "'g env \<Rightarrow> Worktree \<Rightarrow> 'g world \<Rightarrow> bool outcome \<times> 'g world" where
  "confirmRemoval en worktree w =
     (if \<not> stdin_isTTY en
      then (Return False,
            emit (LogError ''Cannot confirm in non-interactive mode. Use --force to skip confirmation.'') w)
      else
        let b = (case branch worktree of None \<Rightarrow> ''(detached)'' | Some x \<Rightarrow> x);
            w1 = emit (Prompt (''Remove worktree '' @ [CHR 0x27] @ b @ [CHR 0x27] @ '' at ''
                               @ path worktree @ ''? (y/N) '')) w
        in (case stdin_line en of
              None \<Rightarrow> (Blocked, w1)
            | Some answer \<Rightarrow> (Return (answer = ''y'' \<or> answer = ''Y''), w1)))"

text \<open>The key handler of \<^verbatim>\<open>interactiveSelect\<close>, run over the keys pressed, with the index
  selected so far. What \<^verbatim>\<open>render\<close> and \<^verbatim>\<open>cleanup\<close> draw is recorded as \<open>Rendered\<close> and
  \<open>ScreenCleared\<close>. When the keys end before a choice the promise never settles.\<close>

fun selectLoop :: "Worktree list \<Rightarrow> key option list \<Rightarrow> nat \<Rightarrow> 'g world
    \<Rightarrow> Worktree option outcome \<times> 'g world" where
  "selectLoop choices [] i w = (Blocked, w)"
| "selectLoop choices (None # ks) i w = selectLoop choices ks i w"
| "selectLoop choices (Some k # ks) i w =
     (if keyName k = ''up'' \<or> (ctrl k \<and> keyName k = ''p'')
      then (let j = (i + length choices - 1) mod length choices
            in selectLoop choices ks j (emit (Rendered j) w))
      else if keyName k = ''down'' \<or> (ctrl k \<and> keyName k = ''n'')
      then (let j = (i + 1) mod length choices
            in selectLoop choices ks j (emit (Rendered j) w))
      else if keyName k = ''return''
      then (Return (Some (choices ! i)), emit ScreenCleared w)
      else if keyName k = ''q'' \<or> keyName k = ''escape'' \<or> (ctrl k \<and> keyName k = ''c'')
      then (Return None, emit ScreenCleared w)
      else selectLoop choices ks i w)"

definition interactiveSelect :: "'g env \<Rightarrow> Worktree list \<Rightarrow> 'g world
    \<Rightarrow> Worktree option outcome \<times> 'g world" where
  "interactiveSelect en worktrees w =
     (if \<not> stdin_isTTY en
      then (Return None, emit (LogError ''No TTY available for interactive selection'') w)
      else if length worktrees = 1 then (Return (Some (worktrees ! 0)), w)
      else selectLoop worktrees (stdin_keys en) 0 (emit (Rendered 0) w))"

text \<open>\<^verbatim>\<open>removeCommand(options)\<close>; \<open>nameOption\<close> and \<open>forceOption\<close> are \<^verbatim>\<open>options.name\<close> and
  \<^verbatim>\<open>options.force\<close>. The first block resolves the worktree; \<open>None\<close> stands for the two
  places where the command returns without one.\<close>

definition removeCommand :: "'g env \<Rightarrow> string option \<Rightarrow> bool option \<Rightarrow> 'g world
    \<Rightarrow> unit outcome \<times> 'g world" where
  "removeCommand en nameOption forceOption =
     obind (assertInsideGitRepo en) (\<lambda>_.
     let dir = process_cwd en in
     obind (getRepoRoot en) (\<lambda>root.
     obind (lift (getDefaultBranch en)) (\<lambda>dflt.
     obind (if nameOption \<noteq> None \<and> nameOption \<noteq> Some []
            then obind (lift (findWorktreeByBranch en (the nameOption))) (\<lambda>found.
                   case found of
                     None \<Rightarrow> throw (WorktreeNotFoundError (the nameOption))
                   | Some wt \<Rightarrow> ret (Some wt))
            else obind (lift (listWorktrees en)) (\<lambda>worktrees.
                   let nonDefaultWorktrees = filter (\<lambda>wt. branch wt \<noteq> Some dflt) worktrees in
                   if length nonDefaultWorktrees = 0
                   then obind (tell (LogWarn
                          ''No worktrees available to remove (only default branch exists)''))
                          (\<lambda>_. ret None)
                   else interactiveSelect en nonDefaultWorktrees)) (\<lambda>resolved.
     case resolved of
       None \<Rightarrow> ret ()
     | Some worktree \<Rightarrow>
         if branch worktree = Some dflt
         then throw (OnDefaultBranchError ''remove'')
         else
         obind (if forceOption \<noteq> Some True then confirmRemoval en worktree else ret True)
           (\<lambda>confirmed.
         if \<not> confirmed
         then tell (LogInfo ''Cancelled'')
         else
         obind (load en dir) (\<lambda>config.
         let hookContext = \<lparr>repoRoot = root, defaultBranch = dflt,
                            branchName = (case branch worktree of None \<Rightarrow> [] | Some b \<Rightarrow> b),
                            worktreePath = path worktree, sourceWorktree = None,
                            targetWorktree = None\<rparr> in
         obind (runHooks en beforeRemove config hookContext) (\<lambda>_.
         obind (tell (LogInfo (''Removing worktree at '' @ path worktree @ ''...''))) (\<lambda>_.
         obind (lift (removeWorktree en (path worktree))) (\<lambda>removeResult.
         if exitCode removeResult \<noteq> 0
         then throw (WtError (''Failed to remove worktree: '' @ stderr removeResult) 1)
         else
         obind (case branch worktree of
                  None \<Rightarrow> ret ()
                | Some b \<Rightarrow>
                    if b = [] then ret ()
                    else
                      obind (tell (LogInfo (''Deleting branch '' @ b @ ''...''))) (\<lambda>_.
                      obind (lift (deleteBranch en b)) (\<lambda>deleteResult.
                      if exitCode deleteResult \<noteq> 0
                      then tell (LogWarn (''Could not delete branch: '' @ stderr deleteResult))
                      else ret ()))) (\<lambda>_.
         obind (runHooks en afterRemove config hookContext) (\<lambda>_.
         tell (LogSuccess (''Removed worktree '' @ [CHR 0x27]
                           @ (case branch worktree of None \<Rightarrow> ''null'' | Some b \<Rightarrow> b)
                           @ [CHR 0x27] @ '' at '' @ path worktree)))))))))))))"

section \<open>The create workflow (commands/create.ts)\<close>

text \<open>\<^verbatim>\<open>resolveWorktreePath(pattern, {repo, branch, parent})\<close>: three global replacements,
  one after the other.\<close>

definition resolveWorktreePath :: "string \<Rightarrow> string \<Rightarrow> string \<Rightarrow> string \<Rightarrow> string" where
  "resolveWorktreePath pattern repo branchVar parent =
     replace_all ''{parent}'' parent
       (replace_all ''{branch}'' branchVar
          (replace_all ''{repo}'' repo pattern))"

text \<open>Lines 44 to 56 of \<^verbatim>\<open>createCommand\<close>: the path of the new worktree, from the working
  directory, the repository root and name, the branch and the configured pattern.\<close>

definition worktreePathFor :: "string \<Rightarrow> string \<Rightarrow> string \<Rightarrow> string \<Rightarrow> string \<Rightarrow> string" where
  "worktreePathFor dir root repoName branchArg pathPattern =
     (let parentDir = path_dirname root;
          resolvedPath = resolveWorktreePath pathPattern repoName branchArg parentDir
      in path_resolve dir resolvedPath)"

definition createCommand :: "'g env \<Rightarrow> string \<Rightarrow> 'g world \<Rightarrow> unit outcome \<times> 'g world" where
  "createCommand en branchArg =
     obind (assertInsideGitRepo en) (\<lambda>_.
     let dir = process_cwd en in
     obind (getRepoRoot en) (\<lambda>root.
     obind (getRepoName en) (\<lambda>repoName.
     obind (lift (getDefaultBranch en)) (\<lambda>dflt.
     obind (load en dir) (\<lambda>config.
     let wtPath = worktreePathFor dir root repoName branchArg (worktreePathPattern (settings config)) in
     obind (\<lambda>w. if fs_existsSync en wtPath (ext w)
                then (Throw (WorktreeExistsError wtPath), w) else (Return (), w)) (\<lambda>_.
     let hookContext = \<lparr>repoRoot = root, defaultBranch = dflt, branchName = branchArg,
                        worktreePath = wtPath, sourceWorktree = Some dir,
                        targetWorktree = None\<rparr> in
     obind (runHooks en beforeCreate config hookContext) (\<lambda>_.
     obind (lift (branchExists en branchArg)) (\<lambda>found.
     let needsNewBranch = \<not> found in
     obind (tell (LogInfo (''Creating worktree for branch '' @ quoted branchArg @ ''...''))) (\<lambda>_.
     obind (lift (createWorktree en wtPath branchArg needsNewBranch)) (\<lambda>result.
     if exitCode result \<noteq> 0
     then throw (WtError (''Failed to create worktree: '' @ stderr result) 1)
     else
     obind (if copyGitIgnoredFiles (settings config)
            then obind (lift (\<lambda>w. case copyIgnored en root wtPath (copyNodeModules (settings config)) (ext w) of
                                     (copied, g) \<Rightarrow> (copied, w\<lparr>ext := g\<rparr>))) (\<lambda>copied.
                   if copied > 0
                   then tell (LogInfo (''Copied '' @ digits copied @ '' gitignored file(s)''))
                   else ret ())
            else ret ()) (\<lambda>_.
     obind (runHooks en afterCreate config hookContext) (\<lambda>_.
     obind (tell (LogSuccess (''Created worktree at '' @ wtPath))) (\<lambda>_.
     tell (ConsoleLog wtPath))))))))))))))"

section \<open>What the specification says of the runner\<close>

text \<open>
  The hooks of one lifecycle event in the order of the specification: for each plugin of
  the list, in list order, its hook for the event if it has one, then the inline hook if
  there is one, each with the label under which a failure is logged. A hook is there when
  the lookup yields a value that passes \<^verbatim>\<open>if (hook)\<close>.
\<close>

definition hooksInOrder :: "HookName \<Rightarrow> 'g ResolvedConfig \<Rightarrow> ('g HookValue \<times> string) list" where
  "hooksInOrder h config =
     concat (map (\<lambda>p. case plugin_hook p h of
                          None \<Rightarrow> []
                        | Some v \<Rightarrow> if truthy v then [(v, plugin_label p h)] else [])
                 (plugins config))
     @ (case inlineHooks config h of
          None \<Rightarrow> []
        | Some v \<Rightarrow> if truthy v then [(v, inline_label h)] else [])"

text \<open>Executing a list of hooks one after the other, each from the state the one before
  left, whatever that one did.\<close>

definition runInOrder ::
  "'g env \<Rightarrow> HookContext \<Rightarrow> ('g HookValue \<times> string) list \<Rightarrow> 'g world \<Rightarrow> 'g world" where
  "runInOrder en ctx hs w =
     foldl (\<lambda>v (hook, label). snd (executeHookValue en hook ctx label v)) w hs"

text \<open>The advisory failures a stretch of the trace reports: its warnings.\<close>

fun warnings :: "event list \<Rightarrow> string list" where
  "warnings [] = []"
| "warnings (LogWarn m # es) = m # warnings es"
| "warnings (e # es) = warnings es"

text \<open>What \<^verbatim>\<open>executeHookItem\<close> prints of a command's result: the lines of its standard
  output, then those of its standard error.\<close>

definition output_lines :: "ExecResult \<Rightarrow> event list" where
  "output_lines r =
     (if stdout r \<noteq> [] then map ConsoleError (split_on (CHR 0x0A) (stdout r)) else [])
     @ (if stderr r \<noteq> [] then map ConsoleError (split_on (CHR 0x0A) (stderr r)) else [])"

section \<open>Reading a trace\<close>

text \<open>The commands by which git.ts asks the repository something without changing it:
  whether this is a repository, its root, the current and the default branch, and the
  list of worktrees.\<close>

definition query_commands :: "string list" where
  "query_commands =
     [''git rev-parse --is-inside-work-tree'',
      ''git rev-parse --show-toplevel'',
      ''git symbolic-ref --quiet --short HEAD'',
      ''git symbolic-ref --quiet refs/remotes/origin/HEAD'',
      ''git show-ref --verify --quiet refs/heads/main'',
      ''git show-ref --verify --quiet refs/heads/master'',
      ''git worktree list --porcelain'']"

fun is_query_event :: "event \<Rightarrow> bool" where
  "is_query_event (Exec c d r) = (c \<in> set query_commands)"
| "is_query_event e = False"

text \<open>
  The steps of a workflow, as the specification counts them: a lifecycle event (a call of
  \<^verbatim>\<open>runHooks\<close>), a git command that is not one of the queries (merge, worktree removal,
  branch deletion, worktree creation), and a line on the success channel. What is
  logged, and what happens inside a hook, is not a step.
\<close>

fun is_step :: "event \<Rightarrow> bool" where
  "is_step (Exec c d r) = (c \<notin> set query_commands)"
| "is_step (RunHooks h) = True"
| "is_step (ConsoleLog l) = True"
| "is_step e = False"

section \<open>Paths as components\<close>

text \<open>A component of a normal absolute path: not empty, not \<^verbatim>\<open>.\<close> or \<^verbatim>\<open>..\<close>, and without a
  slash. The path of the components \<open>segs\<close> is \<^term>\<open>CHR ''/'' # join_slash segs\<close>.\<close>

definition clean_segment :: "string \<Rightarrow> bool" where
  "clean_segment s = (s \<noteq> [] \<and> s \<noteq> ''.'' \<and> s \<noteq> ''..'' \<and> CHR ''/'' \<notin> set s)"

section \<open>Fixtures\<close>

text \<open>
  As in plugins/runner.test.ts, a hook function records its call by pushing a word onto
  an array, and the array is the outside state; the second one throws after that.
\<close>

definition push :: "string \<Rightarrow> string list HookFunction" where
  "push word ctx g = (None, g @ [word])"

definition pushThenThrow :: "string \<Rightarrow> string \<Rightarrow> string list HookFunction" where
  "pushThenThrow word m ctx g = (Some m, g @ [word])"

definition testContext :: HookContext where
  "testContext = \<lparr>repoRoot = ''/test/repo'', defaultBranch = ''main'', branchName = ''feature-x'',
                   worktreePath = ''/test/repo-feature-x'', sourceWorktree = Some ''/test/repo'',
                   targetWorktree = None\<rparr>"

definition success :: "string \<Rightarrow> ExecResult" where
  "success out = \<lparr>stdout = out, stderr = [], exitCode = 0\<rparr>"

definition failure :: "int \<Rightarrow> string \<Rightarrow> ExecResult" where
  "failure code err = \<lparr>stdout = [], stderr = err, exitCode = code\<rparr>"

text \<open>The listing of a repository at \<^verbatim>\<open>/home/u/proj\<close> on \<^verbatim>\<open>main\<close> with one more worktree,
  on \<^verbatim>\<open>feature-x\<close>.\<close>

definition porcelain :: string where
  "porcelain =
     ''worktree /home/u/proj'' @ [CHR 0x0A] @ ''HEAD 1111111'' @ [CHR 0x0A]
     @ ''branch refs/heads/main'' @ [CHR 0x0A] @ [CHR 0x0A]
     @ ''worktree /home/u/proj-feature-x'' @ [CHR 0x0A] @ ''HEAD 2222222'' @ [CHR 0x0A]
     @ ''branch refs/heads/feature-x''"

text \<open>
  A shell for that repository. \<open>toplevel\<close> is the root of the worktree the command is run in,
  \<open>head\<close> the branch checked out there, \<open>mergeExit\<close> and \<open>removeExit\<close> the exit codes of
  \<^verbatim>\<open>git merge\<close> and \<^verbatim>\<open>git worktree remove\<close>. Every git command that is not a query is
  pushed onto the array, so that the array shows hooks and commands in the order they ran.
\<close>

definition testShell ::
  "string \<Rightarrow> string \<Rightarrow> int \<Rightarrow> int \<Rightarrow> string \<Rightarrow> string option \<Rightarrow> string list
    \<Rightarrow> ExecResult \<times> string list" where
  "testShell toplevel head mergeExit removeExit command dir g =
     (if command = ''git rev-parse --is-inside-work-tree'' then (success ''true'', g)
      else if command = ''git rev-parse --show-toplevel'' then (success toplevel, g)
      else if command = ''git symbolic-ref --quiet --short HEAD'' then (success head, g)
      else if command = ''git symbolic-ref --quiet refs/remotes/origin/HEAD''
      then (failure 1 [], g)
      else if command = ''git show-ref --verify --quiet refs/heads/main'' then (success [], g)
      else if command = ''git worktree list --porcelain'' then (success porcelain, g)
      else if command = ''exit 1'' then (failure 1 [], g)
      else if starts_with command ''git merge ''
      then (if mergeExit = 0 then (success ''Already up to date.'', g @ [command])
            else (\<lparr>stdout = ''CONFLICT (content): Merge conflict in a.txt'',
                   stderr = ''Automatic merge failed'', exitCode = mergeExit\<rparr>, g @ [command]))
      else if starts_with command ''git worktree remove ''
      then (if removeExit = 0 then (success [], g @ [command])
            else (failure removeExit ''fatal: contains modified or untracked files'',
                  g @ [command]))
      else (success [], g @ [command]))"

text \<open>A configuration with one plugin and inline hooks, each pushing its name and the
  event.\<close>

definition testConfig :: "string list ResolvedConfig" where
  "testConfig =
     \<lparr>settings = \<lparr>copyGitIgnoredFiles = True, copyNodeModules = False,
                   worktreePathPattern = ''../{repo}-{branch}''\<rparr>,
      plugins = [\<lparr>name = ''plugin'',
                  hooks = Some (\<lambda>h. Some (Single (Function (push (''plugin '' @ hook_name_string h)))))\<rparr>],
      inlineHooks = (\<lambda>h. Some (Single (Function (push (''inline '' @ hook_name_string h)))))\<rparr>"

definition testEnv :: "string \<Rightarrow> string \<Rightarrow> int \<Rightarrow> int \<Rightarrow> string list env" where
  "testEnv toplevel head mergeExit removeExit =
     \<lparr>shell = testShell toplevel head mergeExit removeExit,
      process_cwd = toplevel,
      stdin_isTTY = False,
      stdin_line = None,
      stdin_keys = [],
      loadConfig = (\<lambda>startDir g. Inr testConfig),
      fs_existsSync = (\<lambda>p g. False),
      copyIgnored = (\<lambda>src dst includeNodeModules g. (0, g))\<rparr>"

definition start :: "string list world" where
  "start = \<lparr>ext = [], trace = []\<rparr>"

text \<open>The configurations of two tests of plugins/runner.test.ts: a plugin that throws
  before one that does not, and a plugin before an inline array whose second element
  fails.\<close>

definition failingThenSuccess :: "string list ResolvedConfig" where
  "failingThenSuccess =
     \<lparr>settings = settings testConfig,
      plugins = [\<lparr>name = ''failing'',
                  hooks = Some (\<lambda>h. if h = afterCreate
                                     then Some (Single (Function (pushThenThrow ''failing'' ''Plugin failed'')))
                                     else None)\<rparr>,
                 \<lparr>name = ''success'',
                  hooks = Some (\<lambda>h. if h = afterCreate
                                     then Some (Single (Function (push ''success''))) else None)\<rparr>],
      inlineHooks = (\<lambda>h. None)\<rparr>"

definition pluginThenArray :: "string list ResolvedConfig" where
  "pluginThenArray =
     \<lparr>settings = settings testConfig,
      plugins = [\<lparr>name = ''test-plugin'',
                  hooks = Some (\<lambda>h. if h = afterCreate
                                     then Some (Single (Function (push ''plugin''))) else None)\<rparr>],
      inlineHooks = (\<lambda>h. if h = afterCreate
                          then Some (Sequence [Function (push ''before''), Command ''exit 1'',
                                               Function (push ''after'')])
                          else None)\<rparr>"

section \<open>The runner: order and isolation\<close>

lemma trace_emit [simp]: "trace (emit e w) = trace w @ [e]"
  by (simp add: emit_def)

lemma ext_emit [simp]: "ext (emit e w) = ext w"
  by (simp add: emit_def)

lemma executeHookValue_returns: "fst (executeHookValue en v ctx label w) = Return ()"
  by (simp add: executeHookValue_def split: prod.splits option.splits HookValue.splits)

lemma obind_executeHookValue:
  "obind (executeHookValue en v ctx label) f w = f () (snd (executeHookValue en v ctx label w))"
  using executeHookValue_returns [of en v ctx label w]
  by (cases "executeHookValue en v ctx label w") (simp add: obind_def)

lemma runPluginHooks_in_order:
  "runPluginHooks en h ps ctx w =
     (Return (), runInOrder en ctx
        (concat (map (\<lambda>p. case plugin_hook p h of
                             None \<Rightarrow> []
                           | Some v \<Rightarrow> if truthy v then [(v, plugin_label p h)] else []) ps)) w)"
proof (induction ps arbitrary: w)
  case Nil
  show ?case by (simp add: runInOrder_def)
next
  case (Cons p ps)
  show ?case
  proof (cases "plugin_hook p h")
    case None
    with Cons show ?thesis by simp
  next
    case (Some v)
    with Cons show ?thesis
      by (simp add: obind_executeHookValue runInOrder_def)
  qed
qed

text \<open>
  C1. For every hook name, configuration and context, \<^verbatim>\<open>runHooks\<close> returns (it neither
  throws nor blocks), and the state it leaves is that of executing the plugins' hooks for
  the event in list order and then the inline hook, each one run from the state its
  predecessor left. The hooks are arbitrary, so this holds whichever of them throw.
\<close>

theorem runHooks_order_and_isolation:
  "runHooks en h config ctx w =
     (Return (), runInOrder en ctx (hooksInOrder h config) (emit (RunHooks h) w))"
proof -
  let ?w1 = "runInOrder en ctx
        (concat (map (\<lambda>p. case plugin_hook p h of
                             None \<Rightarrow> []
                           | Some v \<Rightarrow> if truthy v then [(v, plugin_label p h)] else [])
                     (plugins config))) (emit (RunHooks h) w)"
  have "runHooks en h config ctx w =
      (case inlineHooks config h of
         Some inlineHook \<Rightarrow>
           if truthy inlineHook
           then executeHookValue en inlineHook ctx (inline_label h) ?w1
           else (Return (), ?w1)
       | None \<Rightarrow> (Return (), ?w1))"
    by (simp add: runHooks_def obind_def runPluginHooks_in_order)
  also have "\<dots> = (Return (), runInOrder en ctx (hooksInOrder h config) (emit (RunHooks h) w))"
    by (simp add: hooksInOrder_def runInOrder_def prod_eq_iff executeHookValue_returns
          split: option.splits)
  finally show ?thesis .
qed

text \<open>The test \<^verbatim>\<open>continues running hooks even if one fails\<close> of plugins/runner.test.ts.\<close>

theorem runHooks_order_and_isolation_witness:
  "runHooks (testEnv ''/test/repo'' ''main'' 0 0) afterCreate failingThenSuccess testContext start =
     (Return (),
      \<lparr>ext = [''failing'', ''success''],
       trace = [RunHooks afterCreate,
                LogWarn (''Plugin '' @ quoted ''failing'' @ '' afterCreate hook failed: Plugin failed'')]\<rparr>)"
  using runHooks_order_and_isolation
    [of "testEnv ''/test/repo'' ''main'' 0 0" afterCreate failingThenSuccess testContext start]
  by (simp add: hooksInOrder_def runInOrder_def failingThenSuccess_def plugin_hook_def
      plugin_label_def executeHookValue_def executeHookItem_def pushThenThrow_def push_def
      start_def emit_def)

section \<open>Arrays of hooks\<close>

lemma trace_console_error_lines:
  "trace (console_error_lines s w) = trace w @ map ConsoleError (split_on (CHR 0x0A) s)"
proof -
  have "trace (foldl (\<lambda>v l. emit (ConsoleError l) v) w ls) = trace w @ map ConsoleError ls" for ls
    by (induction ls arbitrary: w) simp_all
  then show ?thesis by (simp add: console_error_lines_def)
qed

lemma ext_console_error_lines: "ext (console_error_lines s w) = ext w"
proof -
  have "ext (foldl (\<lambda>v l. emit (ConsoleError l) v) w ls) = ext w" for ls
    by (induction ls arbitrary: w) simp_all
  then show ?thesis by (simp add: console_error_lines_def)
qed

lemma warnings_append: "warnings (xs @ ys) = warnings xs @ warnings ys"
  by (induction xs rule: warnings.induct) simp_all

lemma warnings_ConsoleError: "warnings (map ConsoleError ls) = []"
  by (induction ls) simp_all

lemma executeHookItem_Command:
  assumes "shell en c (Some (worktreePath ctx)) (ext w) = (res, g)"
  shows "executeHookItem en (Command c) ctx w =
     ((if exitCode res \<noteq> 0
       then Some (''Command '' @ quoted c @ '' failed with exit code ''
                  @ string_of_int (exitCode res))
       else None),
      \<lparr>ext = g,
       trace = trace w @ [LogInfo (''Running: '' @ c), HookExec c (Some (worktreePath ctx)) res]
               @ output_lines res\<rparr>)"
  using assms
  by (simp add: executeHookItem_def execAsync_def Let_def output_lines_def
      trace_console_error_lines ext_console_error_lines)

text \<open>
  C3. An inline hook \<^verbatim>\<open>[fn1, "exit 1", fn2]\<close>, with \<open>fn1\<close> returning and the command
  exiting with a code other than zero: after the plugins, \<open>fn1\<close> runs, the command runs,
  and nothing more. The state left is the one the command left, whatever \<open>fn2\<close> is, and
  the event adds one warning to the log, the one for the list.
\<close>

theorem inline_array_stops_at_failing_command:
  assumes inl: "inlineHooks config h =
                  Some (Sequence [Function fn1, Command ''exit 1'', Function fn2])"
    and plug: "runPluginHooks en h (plugins config) ctx (emit (RunHooks h) w) = (Return (), w1)"
    and fn1: "fn1 ctx (ext w1) = (None, g1)"
    and cmd: "shell en ''exit 1'' (Some (worktreePath ctx)) g1 = (res, g2)"
    and fails: "exitCode res \<noteq> 0"
  shows "\<exists>es. runHooks en h config ctx w = (Return (), \<lparr>ext = g2, trace = trace w1 @ es\<rparr>)
      \<and> es = [LogInfo ''Running: exit 1'', HookExec ''exit 1'' (Some (worktreePath ctx)) res]
             @ output_lines res
             @ [LogWarn (inline_label h @ '' failed: Command '' @ quoted ''exit 1''
                         @ '' failed with exit code '' @ string_of_int (exitCode res))]
      \<and> warnings es = [inline_label h @ '' failed: Command '' @ quoted ''exit 1''
                         @ '' failed with exit code '' @ string_of_int (exitCode res)]"
proof -
  have "executeHookItem en (Function fn1) ctx w1 = (None, w1\<lparr>ext := g1\<rparr>)"
    using fn1 by (simp add: executeHookItem_def)
  moreover have "executeHookItem en (Command ''exit 1'') ctx (w1\<lparr>ext := g1\<rparr>) =
      (Some (''Command '' @ quoted ''exit 1'' @ '' failed with exit code ''
             @ string_of_int (exitCode res)),
       \<lparr>ext = g2,
        trace = trace w1 @ [LogInfo ''Running: exit 1'',
                            HookExec ''exit 1'' (Some (worktreePath ctx)) res]
                @ output_lines res\<rparr>)"
    using executeHookItem_Command [of en "''exit 1''" ctx "w1\<lparr>ext := g1\<rparr>" res g2] cmd fails
    by simp
  ultimately show ?thesis
    using inl plug
    by (simp add: runHooks_def obind_def executeHookValue_def emit_def
        warnings_append output_lines_def warnings_ConsoleError)
qed

text \<open>The test \<^verbatim>\<open>stops array execution on command failure but continues to next hook\<close>
  of plugins/runner.test.ts: the array ends as \<^verbatim>\<open>['plugin', 'before']\<close>.\<close>

theorem inline_array_stops_at_failing_command_witness:
  "\<exists>es. runHooks (testEnv ''/test/repo'' ''main'' 0 0) afterCreate pluginThenArray testContext start =
          (Return (), \<lparr>ext = [''plugin'', ''before''], trace = [RunHooks afterCreate] @ es\<rparr>)
      \<and> es = [LogInfo ''Running: exit 1'',
              HookExec ''exit 1'' (Some ''/test/repo-feature-x'') (failure 1 []),
              LogWarn (''Inline afterCreate hook failed: Command '' @ quoted ''exit 1''
                       @ '' failed with exit code 1'')]
      \<and> warnings es = [''Inline afterCreate hook failed: Command '' @ quoted ''exit 1''
                        @ '' failed with exit code 1'']"
proof -
  let ?en = "testEnv ''/test/repo'' ''main'' 0 0"
  let ?w1 = "\<lparr>ext = [''plugin''], trace = [RunHooks afterCreate]\<rparr>"
  have inl: "inlineHooks pluginThenArray afterCreate =
      Some (Sequence [Function (push ''before''), Command ''exit 1'', Function (push ''after'')])"
    by (simp add: pluginThenArray_def)
  have plug: "runPluginHooks ?en afterCreate (plugins pluginThenArray) testContext
      (emit (RunHooks afterCreate) start) = (Return (), ?w1)"
    by (simp add: pluginThenArray_def plugin_hook_def obind_def executeHookValue_def
        executeHookItem_def push_def start_def emit_def)
  have fn1: "push ''before'' testContext (ext ?w1) = (None, [''plugin'', ''before''])"
    by (simp add: push_def)
  have cmd: "shell ?en ''exit 1'' (Some (worktreePath testContext)) [''plugin'', ''before''] =
      (failure 1 [], [''plugin'', ''before''])"
    by (simp add: testEnv_def testShell_def)
  have fails: "exitCode (failure 1 []) \<noteq> 0"
    by (simp add: failure_def)
  show ?thesis
    using inline_array_stops_at_failing_command [OF inl plug fn1 cmd fails]
    by (simp add: output_lines_def failure_def inline_label_def testContext_def
        string_of_int_def digits.simps)
qed

lemma executeHookItems_append:
  "executeHookItems en (xs @ ys) ctx w =
     (case executeHookItems en xs ctx w of
        (Some m, w') \<Rightarrow> (Some m, w')
      | (None, w') \<Rightarrow> executeHookItems en ys ctx w')"
  by (induction xs arbitrary: w) (simp_all split: prod.splits option.splits)

text \<open>
  C4, as the code has it. A function element that throws ends its array as a failing
  command does: when the elements before it have returned and it throws, the elements
  after it are not executed. The state is the one the function left, with one warning for
  the array.
\<close>

theorem throwing_function_ends_array:
  assumes before: "executeHookItems en pre ctx w = (None, w1)"
    and throws: "f ctx (ext w1) = (Some m, g)"
  shows "executeHookValue en (Sequence (pre @ Function f # rest)) ctx label w =
           (Return (), emit (LogWarn (label @ '' failed: '' @ m)) (w1\<lparr>ext := g\<rparr>))"
  using before throws
  by (simp add: executeHookValue_def executeHookItems_append executeHookItem_def)

theorem throwing_function_ends_array_witness:
  "executeHookValue (testEnv ''/test/repo'' ''main'' 0 0)
     (Sequence ([Function (push ''zero'')] @ Function (pushThenThrow ''first'' ''boom'')
                # [Function (push ''second'')]))
     testContext ''Inline afterCreate hook'' start =
   (Return (), \<lparr>ext = [''zero'', ''first''],
                trace = [LogWarn ''Inline afterCreate hook failed: boom'']\<rparr>)"
proof -
  have before: "executeHookItems (testEnv ''/test/repo'' ''main'' 0 0) [Function (push ''zero'')]
      testContext start = (None, \<lparr>ext = [''zero''], trace = []\<rparr>)"
    by (simp add: executeHookItem_def push_def start_def)
  have throws: "pushThenThrow ''first'' ''boom'' testContext (ext \<lparr>ext = [''zero''], trace = []\<rparr>)
      = (Some ''boom'', [''zero'', ''first''])"
    by (simp add: pushThenThrow_def)
  show ?thesis
    using throwing_function_ends_array
      [where f = "pushThenThrow ''first'' ''boom''" and rest = "[Function (push ''second'')]"
         and label = "''Inline afterCreate hook''", OF before throws]
    by (simp add: emit_def)
qed

text \<open>
  C4 as stated fails: in the array \<^verbatim>\<open>[first, second]\<close>, where \<open>first\<close> pushes its name and
  throws and \<open>second\<close> would push its name, \<open>second\<close> is never called.
\<close>

theorem throwing_function_halts_counterexample:
  "executeHookValue (testEnv ''/test/repo'' ''main'' 0 0)
     (Sequence [Function (pushThenThrow ''first'' ''boom''), Function (push ''second'')])
     testContext ''Inline afterCreate hook'' start =
   (Return (), \<lparr>ext = [''first''], trace = [LogWarn ''Inline afterCreate hook failed: boom'']\<rparr>)"
  by (simp add: executeHookValue_def executeHookItem_def pushThenThrow_def push_def
      start_def emit_def)

section \<open>What each call adds to the trace\<close>

lemma exec_trace:
  assumes "exec en c d w = (r, w')"
  shows "trace w' = trace w @ [Exec c d r]"
  using assms by (auto simp add: exec_def split: prod.splits)

lemma queries_no_step: "list_all is_query_event qs \<Longrightarrow> filter is_step qs = []"
proof (induction qs)
  case Nil
  show ?case by simp
next
  case (Cons e qs)
  then show ?case by (cases e) simp_all
qed

lemma assertInsideGitRepo_trace:
  assumes "assertInsideGitRepo en w = (r, w')"
  shows "\<exists>qs. trace w' = trace w @ qs \<and> list_all is_query_event qs"
proof -
  obtain res v where e: "exec en ''git rev-parse --is-inside-work-tree'' None w = (res, v)"
    by (cases "exec en ''git rev-parse --is-inside-work-tree'' None w")
  with assms have "w' = v"
    by (simp add: assertInsideGitRepo_def isInsideGitRepo_def split: if_splits)
  with exec_trace [OF e] show ?thesis
    by (simp add: query_commands_def)
qed

lemma getRepoRoot_trace:
  assumes "getRepoRoot en w = (r, w')"
  shows "\<exists>qs. trace w' = trace w @ qs \<and> list_all is_query_event qs"
proof -
  obtain res v where e: "exec en ''git rev-parse --show-toplevel'' None w = (res, v)"
    by (cases "exec en ''git rev-parse --show-toplevel'' None w")
  with assms have "w' = v"
    by (simp add: getRepoRoot_def split: if_splits)
  with exec_trace [OF e] show ?thesis
    by (simp add: query_commands_def)
qed

lemma getCurrentBranch_trace:
  assumes "getCurrentBranch en w = (r, w')"
  shows "\<exists>qs. trace w' = trace w @ qs \<and> list_all is_query_event qs"
proof -
  obtain res v where e: "exec en ''git symbolic-ref --quiet --short HEAD'' None w = (res, v)"
    by (cases "exec en ''git symbolic-ref --quiet --short HEAD'' None w")
  with assms have "w' = v"
    by (simp add: getCurrentBranch_def split: if_splits)
  with exec_trace [OF e] show ?thesis
    by (simp add: query_commands_def)
qed

lemma getDefaultBranch_trace:
  assumes "getDefaultBranch en w = (d, w')"
  shows "\<exists>qs. trace w' = trace w @ qs \<and> list_all is_query_event qs"
proof -
  obtain r1 v1 where e1:
    "exec en ''git symbolic-ref --quiet refs/remotes/origin/HEAD'' None w = (r1, v1)"
    by (cases "exec en ''git symbolic-ref --quiet refs/remotes/origin/HEAD'' None w")
  obtain r2 v2 where e2:
    "exec en ''git show-ref --verify --quiet refs/heads/main'' None v1 = (r2, v2)"
    by (cases "exec en ''git show-ref --verify --quiet refs/heads/main'' None v1")
  obtain r3 v3 where e3:
    "exec en ''git show-ref --verify --quiet refs/heads/master'' None v2 = (r3, v3)"
    by (cases "exec en ''git show-ref --verify --quiet refs/heads/master'' None v2")
  from assms e1 e2 e3 have "w' = v1 \<or> w' = v2 \<or> w' = v3"
    by (auto simp add: getDefaultBranch_def split: if_splits)
  with exec_trace [OF e1] exec_trace [OF e2] exec_trace [OF e3] show ?thesis
    by (auto simp add: query_commands_def)
qed

lemma listWorktrees_trace:
  assumes "listWorktrees en w = (wts, w')"
  shows "\<exists>qs. trace w' = trace w @ qs \<and> list_all is_query_event qs"
proof -
  obtain res v where e: "exec en ''git worktree list --porcelain'' None w = (res, v)"
    by (cases "exec en ''git worktree list --porcelain'' None w")
  with assms have "w' = v"
    by (simp add: listWorktrees_def split: if_splits)
  with exec_trace [OF e] show ?thesis
    by (simp add: query_commands_def)
qed

lemma findWorktreeByBranch_trace:
  assumes "findWorktreeByBranch en b w = (found, w')"
  shows "\<exists>qs. trace w' = trace w @ qs \<and> list_all is_query_event qs"
proof -
  obtain wts v where l: "listWorktrees en w = (wts, v)"
    by (cases "listWorktrees en w")
  with assms have "w' = v"
    by (simp add: findWorktreeByBranch_def)
  with listWorktrees_trace [OF l] show ?thesis by simp
qed

lemma getMainWorktree_trace:
  assumes "getMainWorktree en w = (r, w')"
  shows "\<exists>qs. trace w' = trace w @ qs \<and> list_all is_query_event qs"
proof -
  obtain d v1 where g: "getDefaultBranch en w = (d, v1)"
    by (cases "getDefaultBranch en w")
  obtain found v2 where f: "findWorktreeByBranch en d v1 = (found, v2)"
    by (cases "findWorktreeByBranch en d v1")
  from assms g f have "w' = v2"
    by (auto simp add: getMainWorktree_def split: option.splits)
  with getDefaultBranch_trace [OF g] findWorktreeByBranch_trace [OF f] show ?thesis
    by auto
qed

text \<open>Inside a lifecycle event nothing is a step: hooks log, print and run commands of
  their own.\<close>

lemma output_lines_no_step: "filter is_step (output_lines r) = []"
  by (auto simp add: output_lines_def filter_empty_conv)

lemma executeHookItem_trace:
  "\<exists>es. trace (snd (executeHookItem en item ctx w)) = trace w @ es \<and> filter is_step es = []"
proof (cases item)
  case (Command c)
  obtain res g where s: "shell en c (Some (worktreePath ctx)) (ext w) = (res, g)"
    by (cases "shell en c (Some (worktreePath ctx)) (ext w)")
  show ?thesis
    unfolding Command executeHookItem_Command [OF s]
    by (simp add: output_lines_no_step)
next
  case (Function f)
  then show ?thesis
    by (simp add: executeHookItem_def split: prod.splits)
qed

lemma executeHookItems_trace:
  "\<exists>es. trace (snd (executeHookItems en items ctx w)) = trace w @ es \<and> filter is_step es = []"
proof (induction items arbitrary: w)
  case Nil
  show ?case by simp
next
  case (Cons item items)
  obtain r v where i: "executeHookItem en item ctx w = (r, v)"
    by (cases "executeHookItem en item ctx w")
  from executeHookItem_trace [of en item ctx w] i
  obtain es where es: "trace v = trace w @ es" "filter is_step es = []"
    by auto
  show ?case
  proof (cases r)
    case None
    from Cons.IH [of v] obtain es' where
      "trace (snd (executeHookItems en items ctx v)) = trace v @ es'" "filter is_step es' = []"
      by auto
    with i None es show ?thesis by simp
  next
    case (Some m)
    with i es show ?thesis by simp
  qed
qed

lemma executeHookValue_trace:
  "\<exists>es. trace (snd (executeHookValue en v ctx label w)) = trace w @ es \<and> filter is_step es = []"
proof (cases v)
  case (Single item)
  obtain r u where i: "executeHookItem en item ctx w = (r, u)"
    by (cases "executeHookItem en item ctx w")
  with executeHookItem_trace [of en item ctx w] Single show ?thesis
    by (cases r) (auto simp add: executeHookValue_def)
next
  case (Sequence items)
  obtain r u where i: "executeHookItems en items ctx w = (r, u)"
    by (cases "executeHookItems en items ctx w")
  with executeHookItems_trace [of en items ctx w] Sequence show ?thesis
    by (cases r) (auto simp add: executeHookValue_def)
qed

lemma runInOrder_trace:
  "\<exists>es. trace (runInOrder en ctx hs w) = trace w @ es \<and> filter is_step es = []"
proof (induction hs arbitrary: w)
  case Nil
  show ?case by (simp add: runInOrder_def)
next
  case (Cons hl hs)
  obtain v label where hl: "hl = (v, label)" by (cases hl)
  let ?u = "snd (executeHookValue en v ctx label w)"
  from executeHookValue_trace [of en v ctx label w]
  obtain es where es: "trace ?u = trace w @ es" "filter is_step es = []" by auto
  from Cons.IH [of ?u]
  obtain es' where "trace (runInOrder en ctx hs ?u) = trace ?u @ es'" "filter is_step es' = []"
    by auto
  with es hl show ?case by (simp add: runInOrder_def)
qed

text \<open>What a lifecycle event executes: the hooks of the configuration for the event, in
  order, after the marker of the event.\<close>

lemma runHooks_runs_in_order:
  "runHooks en h config ctx w =
     (Return (), runInOrder en ctx (hooksInOrder h config) (emit (RunHooks h) w))"
proof -
  let ?w1 = "runInOrder en ctx
        (concat (map (\<lambda>p. case plugin_hook p h of
                             None \<Rightarrow> []
                           | Some v \<Rightarrow> if truthy v then [(v, plugin_label p h)] else [])
                     (plugins config))) (emit (RunHooks h) w)"
  have "runHooks en h config ctx w =
      (case inlineHooks config h of
         Some inlineHook \<Rightarrow>
           if truthy inlineHook
           then executeHookValue en inlineHook ctx (inline_label h) ?w1
           else (Return (), ?w1)
       | None \<Rightarrow> (Return (), ?w1))"
    by (simp add: runHooks_def obind_def runPluginHooks_in_order)
  then show ?thesis
    by (simp add: hooksInOrder_def runInOrder_def prod_eq_iff executeHookValue_returns
          split: option.splits)
qed

lemma runHooks_trace:
  assumes "runHooks en h config ctx w = (r, w')"
  shows "r = Return () \<and> (\<exists>es. trace w' = trace w @ RunHooks h # es \<and> filter is_step es = [])"
proof -
  let ?ps = "concat (map (\<lambda>p. case plugin_hook p h of
                             None \<Rightarrow> []
                           | Some v \<Rightarrow> if truthy v then [(v, plugin_label p h)] else [])
                     (plugins config))"
  let ?w1 = "runInOrder en ctx ?ps (emit (RunHooks h) w)"
  from runInOrder_trace [of en ctx ?ps "emit (RunHooks h) w"]
  obtain es where es: "trace ?w1 = trace w @ RunHooks h # es" "filter is_step es = []"
    by auto
  have unfold: "runHooks en h config ctx w =
      (case inlineHooks config h of
         Some inlineHook \<Rightarrow>
           if truthy inlineHook
           then executeHookValue en inlineHook ctx (inline_label h) ?w1
           else (Return (), ?w1)
       | None \<Rightarrow> (Return (), ?w1))"
    by (simp add: runHooks_def obind_def runPluginHooks_in_order)
  show ?thesis
  proof (cases "inlineHooks config h")
    case None
    with unfold assms es show ?thesis by auto
  next
    case (Some v)
    show ?thesis
    proof (cases "truthy v")
      case False
      with Some unfold assms es show ?thesis by auto
    next
      case True
      with Some unfold assms
      have eq: "executeHookValue en v ctx (inline_label h) ?w1 = (r, w')" by simp
      from eq executeHookValue_returns [of en v ctx "inline_label h" ?w1]
      have r: "r = Return ()" by simp
      from eq executeHookValue_trace [of en v ctx "inline_label h" ?w1]
      obtain es' where "trace w' = trace ?w1 @ es'" "filter is_step es' = []" by auto
      with es have "trace w' = trace w @ RunHooks h # (es @ es')" "filter is_step (es @ es') = []"
        by simp_all
      with r show ?thesis by blast
    qed
  qed
qed

section \<open>The merge workflow\<close>

text \<open>The run up to the merge: the guards pass, the primary worktree and the
  configuration are found, the \<^verbatim>\<open>beforeMerge\<close> hooks run, and \<^verbatim>\<open>git merge\<close> comes back. Its
  steps are the lifecycle event and the merge.\<close>

lemma merge_attempt_trace:
  assumes inside: "assertInsideGitRepo en w0 = (Return (), w1)"
    and root: "getRepoRoot en w1 = (Return root, w2)"
    and current: "getCurrentBranch en w2 = (Return current, w3)"
    and dflt: "getDefaultBranch en w3 = (dflt, w4)"
    and main: "getMainWorktree en w4 = (Return mainWorktree, w5)"
    and hooks: "runHooks en beforeMerge config ctx w5 = (Return (), w6)"
    and merge: "mergeBranch en current (path mainWorktree)
                  (emit (LogInfo (''Merging '' @ quoted current @ '' into '' @ quoted dflt @ ''...'')) w6)
                = (mergeResult, w7)"
  shows "\<exists>es. trace w7 = trace w0 @ es
      \<and> filter is_step es =
          [RunHooks beforeMerge,
           Exec (''git merge '' @ quoted current) (Some (path mainWorktree)) mergeResult]"
proof -
  from assertInsideGitRepo_trace [OF inside]
  obtain q1 where q1: "trace w1 = trace w0 @ q1" "list_all is_query_event q1" by auto
  from getRepoRoot_trace [OF root]
  obtain q2 where q2: "trace w2 = trace w1 @ q2" "list_all is_query_event q2" by auto
  from getCurrentBranch_trace [OF current]
  obtain q3 where q3: "trace w3 = trace w2 @ q3" "list_all is_query_event q3" by auto
  from getDefaultBranch_trace [OF dflt]
  obtain q4 where q4: "trace w4 = trace w3 @ q4" "list_all is_query_event q4" by auto
  from getMainWorktree_trace [OF main]
  obtain q5 where q5: "trace w5 = trace w4 @ q5" "list_all is_query_event q5" by auto
  from runHooks_trace [OF hooks]
  obtain hs where hs: "trace w6 = trace w5 @ RunHooks beforeMerge # hs" "filter is_step hs = []"
    by auto
  from merge have
    "trace w7 = trace w6
       @ [LogInfo (''Merging '' @ quoted current @ '' into '' @ quoted dflt @ ''...''),
          Exec (''git merge '' @ quoted current) (Some (path mainWorktree)) mergeResult]"
    by (simp add: mergeBranch_def exec_trace)
  with q1 q2 q3 q4 q5 hs
  have "trace w7 = trace w0 @ (q1 @ q2 @ q3 @ q4 @ q5 @ RunHooks beforeMerge # hs
       @ [LogInfo (''Merging '' @ quoted current @ '' into '' @ quoted dflt @ ''...''),
          Exec (''git merge '' @ quoted current) (Some (path mainWorktree)) mergeResult])"
    by simp
  moreover from q1 q2 q3 q4 q5 hs
  have "filter is_step (q1 @ q2 @ q3 @ q4 @ q5 @ RunHooks beforeMerge # hs
       @ [LogInfo (''Merging '' @ quoted current @ '' into '' @ quoted dflt @ ''...''),
          Exec (''git merge '' @ quoted current) (Some (path mainWorktree)) mergeResult])
      = [RunHooks beforeMerge,
         Exec (''git merge '' @ quoted current) (Some (path mainWorktree)) mergeResult]"
    by (simp add: queries_no_step query_commands_def)
  ultimately show ?thesis by blast
qed

text \<open>
  C2. A merge that \<^verbatim>\<open>git merge\<close> rejects: the command throws \<^verbatim>\<open>MergeConflictError\<close> with the
  default branch and the path of the primary worktree. Its steps are the \<^verbatim>\<open>beforeMerge\<close>
  event, the merge, and one line on the success channel, the working directory the
  command was started in; so no other lifecycle event runs and no worktree removal or
  branch deletion is issued. The outside state stays as the merge left it.
\<close>

theorem merge_failure_keeps_operator_in_place:
  assumes inside: "assertInsideGitRepo en w0 = (Return (), w1)"
    and root: "getRepoRoot en w1 = (Return root, w2)"
    and current: "getCurrentBranch en w2 = (Return current, w3)"
    and dflt: "getDefaultBranch en w3 = (dflt, w4)"
    and differ: "current \<noteq> dflt"
    and main: "getMainWorktree en w4 = (Return mainWorktree, w5)"
    and config: "loadConfig en (process_cwd en) (ext w5) = Inr config"
    and hooks: "runHooks en beforeMerge config
                  \<lparr>repoRoot = root, defaultBranch = dflt, branchName = current,
                   worktreePath = process_cwd en, sourceWorktree = None,
                   targetWorktree = Some (path mainWorktree)\<rparr> w5 = (Return (), w6)"
    and merge: "mergeBranch en current (path mainWorktree)
                  (emit (LogInfo (''Merging '' @ quoted current @ '' into '' @ quoted dflt @ ''...'')) w6)
                = (mergeResult, w7)"
    and rejected: "exitCode mergeResult \<noteq> 0"
  shows "\<exists>es. mergeCommand en keepOption w0 =
              (Throw (MergeConflictError dflt (path mainWorktree)), w7\<lparr>trace := trace w0 @ es\<rparr>)
      \<and> filter is_step es =
          [RunHooks beforeMerge,
           Exec (''git merge '' @ quoted current) (Some (path mainWorktree)) mergeResult,
           ConsoleLog (process_cwd en)]"
proof -
  from merge_attempt_trace [OF inside root current dflt main hooks merge]
  obtain es where es: "trace w7 = trace w0 @ es"
    "filter is_step es =
       [RunHooks beforeMerge,
        Exec (''git merge '' @ quoted current) (Some (path mainWorktree)) mergeResult]"
    by auto
  define fs where "fs =
     [LogError ''Merge failed!'']
     @ (if stderr mergeResult \<noteq> [] then [LogError (stderr mergeResult)] else [])
     @ (if stdout mergeResult \<noteq> [] then [ConsoleError (stdout mergeResult)] else [])
     @ [LogError (''Resolve conflicts in '' @ path mainWorktree @ '' then commit manually.''),
        LogInfo (''You are still in: '' @ process_cwd en),
        ConsoleLog (process_cwd en)]"
  have "mergeCommand en keepOption w0 =
      (Throw (MergeConflictError dflt (path mainWorktree)), w7\<lparr>trace := trace w7 @ fs\<rparr>)"
    using inside root current dflt differ main config hooks merge rejected
    by (simp add: mergeCommand_def Let_def obind_def lift_def tell_def ret_def throw_def
        load_def emit_def fs_def)
  moreover have "filter is_step fs = [ConsoleLog (process_cwd en)]"
    by (simp add: fs_def)
  ultimately have "mergeCommand en keepOption w0 =
      (Throw (MergeConflictError dflt (path mainWorktree)), w7\<lparr>trace := trace w0 @ (es @ fs)\<rparr>)
    \<and> filter is_step (es @ fs) =
          [RunHooks beforeMerge,
           Exec (''git merge '' @ quoted current) (Some (path mainWorktree)) mergeResult,
           ConsoleLog (process_cwd en)]"
    using es by simp
  then show ?thesis by blast
qed

text \<open>In the repository of the fixtures, on \<^verbatim>\<open>feature-x\<close>, with a merge that exits with 1.\<close>

theorem merge_failure_keeps_operator_in_place_witness:
  "\<exists>es. mergeCommand (testEnv ''/home/u/proj-feature-x'' ''feature-x'' 1 0) None start =
          (Throw (MergeConflictError ''main'' ''/home/u/proj''),
           \<lparr>ext = [''plugin beforeMerge'', ''inline beforeMerge'', ''git merge '' @ quoted ''feature-x''],
            trace = es\<rparr>)
      \<and> filter is_step es =
          [RunHooks beforeMerge,
           Exec (''git merge '' @ quoted ''feature-x'') (Some ''/home/u/proj'')
             \<lparr>stdout = ''CONFLICT (content): Merge conflict in a.txt'',
              stderr = ''Automatic merge failed'', exitCode = 1\<rparr>,
           ConsoleLog ''/home/u/proj-feature-x'']"
proof -
  let ?en = "testEnv ''/home/u/proj-feature-x'' ''feature-x'' 1 0"
  let ?ctx = "\<lparr>repoRoot = ''/home/u/proj-feature-x'', defaultBranch = ''main'',
               branchName = ''feature-x'', worktreePath = process_cwd ?en,
               sourceWorktree = None, targetWorktree = Some ''/home/u/proj''\<rparr>"
  let ?mw = "\<lparr>path = ''/home/u/proj'', branch = Some ''main'', isDetached = False\<rparr>"
  let ?res = "\<lparr>stdout = ''CONFLICT (content): Merge conflict in a.txt'',
               stderr = ''Automatic merge failed'', exitCode = 1\<rparr>"
  let ?w1 = "snd (assertInsideGitRepo ?en start)"
  let ?w2 = "snd (getRepoRoot ?en ?w1)"
  let ?w3 = "snd (getCurrentBranch ?en ?w2)"
  let ?w4 = "snd (getDefaultBranch ?en ?w3)"
  let ?w5 = "snd (getMainWorktree ?en ?w4)"
  let ?w6 = "snd (runHooks ?en beforeMerge testConfig ?ctx ?w5)"
  let ?w7 = "snd (mergeBranch ?en ''feature-x'' ''/home/u/proj''
      (emit (LogInfo (''Merging '' @ quoted ''feature-x'' @ '' into '' @ quoted ''main'' @ ''...'')) ?w6))"
  have inside: "assertInsideGitRepo ?en start = (Return (), ?w1)"
    by code_simp
  have root: "getRepoRoot ?en ?w1 = (Return ''/home/u/proj-feature-x'', ?w2)"
    by code_simp
  have current: "getCurrentBranch ?en ?w2 = (Return ''feature-x'', ?w3)"
    by code_simp
  have dflt: "getDefaultBranch ?en ?w3 = (''main'', ?w4)"
    by code_simp
  have differ: "''feature-x'' \<noteq> ''main''"
    by simp
  have main: "getMainWorktree ?en ?w4 = (Return ?mw, ?w5)"
    by code_simp
  have config: "loadConfig ?en (process_cwd ?en) (ext ?w5) = Inr testConfig"
    by (simp add: testEnv_def)
  have hooks: "runHooks ?en beforeMerge testConfig
      \<lparr>repoRoot = ''/home/u/proj-feature-x'', defaultBranch = ''main'',
       branchName = ''feature-x'', worktreePath = process_cwd ?en,
       sourceWorktree = None, targetWorktree = Some (path ?mw)\<rparr> ?w5 = (Return (), ?w6)"
    by code_simp
  have merge: "mergeBranch ?en ''feature-x'' (path ?mw)
      (emit (LogInfo (''Merging '' @ quoted ''feature-x'' @ '' into '' @ quoted ''main'' @ ''...'')) ?w6)
      = (?res, ?w7)"
    by code_simp
  have rejected: "exitCode ?res \<noteq> 0"
    by simp
  have outside: "ext ?w7 =
      [''plugin beforeMerge'', ''inline beforeMerge'', ''git merge '' @ quoted ''feature-x'']"
    by code_simp
  have cwd: "process_cwd ?en = ''/home/u/proj-feature-x''"
    by (simp add: testEnv_def)
  from merge_failure_keeps_operator_in_place
    [OF inside root current dflt differ main config hooks merge rejected, of None]
  obtain es where
    "mergeCommand ?en None start =
       (Throw (MergeConflictError ''main'' (path ?mw)), ?w7\<lparr>trace := trace start @ es\<rparr>)"
    "filter is_step es =
       [RunHooks beforeMerge,
        Exec (''git merge '' @ quoted ''feature-x'') (Some (path ?mw)) ?res,
        ConsoleLog (process_cwd ?en)]"
    by blast
  with outside cwd have
    "mergeCommand ?en None start =
       (Throw (MergeConflictError ''main'' ''/home/u/proj''),
        \<lparr>ext = [''plugin beforeMerge'', ''inline beforeMerge'', ''git merge '' @ quoted ''feature-x''],
         trace = es\<rparr>)
     \<and> filter is_step es =
       [RunHooks beforeMerge,
        Exec (''git merge '' @ quoted ''feature-x'') (Some ''/home/u/proj'') ?res,
        ConsoleLog ''/home/u/proj-feature-x'']"
    by (simp add: start_def)
  then show ?thesis by blast
qed

text \<open>
  C8. A merge that succeeds, with \<^verbatim>\<open>keep\<close> requested: the command returns. The state
  before the merge is that of executing the \<^verbatim>\<open>beforeMerge\<close> hooks of the loaded
  configuration, in order; the state the command leaves is that of executing, from the
  state the merge left, the \<^verbatim>\<open>afterMerge\<close> hooks of the loaded configuration, in order,
  and then writing the path of the primary worktree to the success channel. Nothing else
  touches the state after the merge: no hook of \<^verbatim>\<open>beforeRemove\<close> or \<^verbatim>\<open>afterRemove\<close> is
  executed and no command is run. The steps of the whole run are the \<^verbatim>\<open>beforeMerge\<close>
  event, the merge, the \<^verbatim>\<open>afterMerge\<close> event and that line: no worktree removal and no
  branch deletion is issued.
\<close>

theorem merge_keep_leaves_worktree_and_branch:
  assumes inside: "assertInsideGitRepo en w0 = (Return (), w1)"
    and root: "getRepoRoot en w1 = (Return root, w2)"
    and current: "getCurrentBranch en w2 = (Return current, w3)"
    and dflt: "getDefaultBranch en w3 = (dflt, w4)"
    and differ: "current \<noteq> dflt"
    and main: "getMainWorktree en w4 = (Return mainWorktree, w5)"
    and config: "loadConfig en (process_cwd en) (ext w5) = Inr config"
    and hooks: "runHooks en beforeMerge config
                  \<lparr>repoRoot = root, defaultBranch = dflt, branchName = current,
                   worktreePath = process_cwd en, sourceWorktree = None,
                   targetWorktree = Some (path mainWorktree)\<rparr> w5 = (Return (), w6)"
    and merge: "mergeBranch en current (path mainWorktree)
                  (emit (LogInfo (''Merging '' @ quoted current @ '' into '' @ quoted dflt @ ''...'')) w6)
                = (mergeResult, w7)"
    and merged: "exitCode mergeResult = 0"
    and keep: "keepOption = Some True"
  shows "w6 = runInOrder en
                \<lparr>repoRoot = root, defaultBranch = dflt, branchName = current,
                 worktreePath = process_cwd en, sourceWorktree = None,
                 targetWorktree = Some (path mainWorktree)\<rparr>
                (hooksInOrder beforeMerge config) (emit (RunHooks beforeMerge) w5)
      \<and> mergeCommand en keepOption w0 =
          (Return (),
           emit (ConsoleLog (path mainWorktree))
             (runInOrder en
                \<lparr>repoRoot = root, defaultBranch = dflt, branchName = current,
                 worktreePath = process_cwd en, sourceWorktree = None,
                 targetWorktree = Some (path mainWorktree)\<rparr>
                (hooksInOrder afterMerge config)
                (emit (RunHooks afterMerge)
                   (emit (LogInfo ''Kept worktree and branch (--keep flag)'')
                      (emit (LogSuccess (''Merged '' @ quoted current @ '' into '' @ quoted dflt))
                         w7)))))
      \<and> (\<exists>es w'. mergeCommand en keepOption w0 = (Return (), w')
          \<and> trace w' = trace w0 @ es
          \<and> filter is_step es =
              [RunHooks beforeMerge,
               Exec (''git merge '' @ quoted current) (Some (path mainWorktree)) mergeResult,
               RunHooks afterMerge,
               ConsoleLog (path mainWorktree)])"
proof -
  let ?ctx = "\<lparr>repoRoot = root, defaultBranch = dflt, branchName = current,
               worktreePath = process_cwd en, sourceWorktree = None,
               targetWorktree = Some (path mainWorktree)\<rparr>"
  let ?w8 = "emit (LogInfo ''Kept worktree and branch (--keep flag)'')
               (emit (LogSuccess (''Merged '' @ quoted current @ '' into '' @ quoted dflt)) w7)"
  let ?w9 = "runInOrder en ?ctx (hooksInOrder afterMerge config) (emit (RunHooks afterMerge) ?w8)"
  from merge_attempt_trace [OF inside root current dflt main hooks merge]
  obtain es where es: "trace w7 = trace w0 @ es"
    "filter is_step es =
       [RunHooks beforeMerge,
        Exec (''git merge '' @ quoted current) (Some (path mainWorktree)) mergeResult]"
    by auto
  have before: "w6 = runInOrder en ?ctx (hooksInOrder beforeMerge config)
      (emit (RunHooks beforeMerge) w5)"
    using hooks runHooks_runs_in_order [of en beforeMerge config ?ctx w5] by simp
  have after: "runHooks en afterMerge config ?ctx ?w8 = (Return (), ?w9)"
    by (rule runHooks_runs_in_order)
  from runHooks_trace [OF after]
  obtain hs where hs: "trace ?w9 = trace ?w8 @ RunHooks afterMerge # hs" "filter is_step hs = []"
    by auto
  have run: "mergeCommand en keepOption w0 = (Return (), emit (ConsoleLog (path mainWorktree)) ?w9)"
    using inside root current dflt differ main config hooks merge merged keep after
    by (simp add: mergeCommand_def Let_def obind_def lift_def tell_def ret_def throw_def
        load_def)
  let ?es = "es @ [LogSuccess (''Merged '' @ quoted current @ '' into '' @ quoted dflt),
                   LogInfo ''Kept worktree and branch (--keep flag)'']
             @ RunHooks afterMerge # hs @ [ConsoleLog (path mainWorktree)]"
  from es hs have "trace (emit (ConsoleLog (path mainWorktree)) ?w9) = trace w0 @ ?es"
    by simp
  moreover from es hs have "filter is_step ?es =
      [RunHooks beforeMerge,
       Exec (''git merge '' @ quoted current) (Some (path mainWorktree)) mergeResult,
       RunHooks afterMerge,
       ConsoleLog (path mainWorktree)]"
    by simp
  ultimately have "\<exists>es w'. mergeCommand en keepOption w0 = (Return (), w')
          \<and> trace w' = trace w0 @ es
          \<and> filter is_step es =
              [RunHooks beforeMerge,
               Exec (''git merge '' @ quoted current) (Some (path mainWorktree)) mergeResult,
               RunHooks afterMerge,
               ConsoleLog (path mainWorktree)]"
    using run by blast
  with before run show ?thesis by blast
qed

text \<open>
  C5. A merge that succeeds, without \<^verbatim>\<open>keep\<close>: the command returns, and the state it leaves
  is built in this order from the state the merge left. The \<^verbatim>\<open>beforeRemove\<close> hooks of the
  loaded configuration are executed, in order; the worktree removal is run, and warned
  about when it exits with a code other than zero; the branch deletion is run from the
  state so reached, and warned about likewise; the \<^verbatim>\<open>afterRemove\<close> hooks and then the
  \<^verbatim>\<open>afterMerge\<close> hooks of the loaded configuration are executed, in order, whatever the
  two commands returned; the path of the primary worktree is written to the success
  channel. Before the merge the \<^verbatim>\<open>beforeMerge\<close> hooks were executed. In the trace each of
  the two commands is followed at once by its warning; the steps before the removal are
  the \<^verbatim>\<open>beforeMerge\<close> event, the merge and the \<^verbatim>\<open>beforeRemove\<close> event, the steps after the
  deletion the \<^verbatim>\<open>afterRemove\<close> event, the \<^verbatim>\<open>afterMerge\<close> event and the line on the success
  channel.
\<close>

theorem merge_success_cleans_up_in_order:
  assumes inside: "assertInsideGitRepo en w0 = (Return (), w1)"
    and root: "getRepoRoot en w1 = (Return root, w2)"
    and current: "getCurrentBranch en w2 = (Return current, w3)"
    and dflt: "getDefaultBranch en w3 = (dflt, w4)"
    and differ: "current \<noteq> dflt"
    and main: "getMainWorktree en w4 = (Return mainWorktree, w5)"
    and config: "loadConfig en (process_cwd en) (ext w5) = Inr config"
    and hooks: "runHooks en beforeMerge config
                  \<lparr>repoRoot = root, defaultBranch = dflt, branchName = current,
                   worktreePath = process_cwd en, sourceWorktree = None,
                   targetWorktree = Some (path mainWorktree)\<rparr> w5 = (Return (), w6)"
    and merge: "mergeBranch en current (path mainWorktree)
                  (emit (LogInfo (''Merging '' @ quoted current @ '' into '' @ quoted dflt @ ''...'')) w6)
                = (mergeResult, w7)"
    and merged: "exitCode mergeResult = 0"
    and no_keep: "keepOption \<noteq> Some True"
  shows "w6 = runInOrder en
                \<lparr>repoRoot = root, defaultBranch = dflt, branchName = current,
                 worktreePath = process_cwd en, sourceWorktree = None,
                 targetWorktree = Some (path mainWorktree)\<rparr>
                (hooksInOrder beforeMerge config) (emit (RunHooks beforeMerge) w5)
      \<and> (\<exists>removeResult w9 deleteResult w11 first rest w'.
          removeWorktree en (process_cwd en)
            (emit (LogInfo (''Removing worktree at '' @ process_cwd en @ ''...''))
               (runInOrder en
                  \<lparr>repoRoot = root, defaultBranch = dflt, branchName = current,
                 worktreePath = process_cwd en, sourceWorktree = None,
                 targetWorktree = Some (path mainWorktree)\<rparr>
                  (hooksInOrder beforeRemove config)
                  (emit (RunHooks beforeRemove)
                     (emit (LogSuccess (''Merged '' @ quoted current @ '' into '' @ quoted dflt))
                        w7))))
            = (removeResult, w9)
        \<and> deleteBranch en current
            (if exitCode removeResult \<noteq> 0
             then emit (LogWarn (''Failed to remove worktree: '' @ stderr removeResult)) w9
             else w9)
            = (deleteResult, w11)
        \<and> w' = emit (ConsoleLog (path mainWorktree))
                 (emit (LogSuccess (''Merged and cleaned up '' @ quoted current))
                    (runInOrder en
                       \<lparr>repoRoot = root, defaultBranch = dflt, branchName = current,
                 worktreePath = process_cwd en, sourceWorktree = None,
                 targetWorktree = Some (path mainWorktree)\<rparr>
                       (hooksInOrder afterMerge config)
                       (emit (RunHooks afterMerge)
                          (runInOrder en
                             \<lparr>repoRoot = root, defaultBranch = dflt, branchName = current,
                 worktreePath = process_cwd en, sourceWorktree = None,
                 targetWorktree = Some (path mainWorktree)\<rparr>
                             (hooksInOrder afterRemove config)
                             (emit (RunHooks afterRemove)
                                (emit (if exitCode deleteResult \<noteq> 0
                                       then LogWarn (''Failed to delete branch '' @ quoted current
                                                     @ '': '' @ stderr deleteResult)
                                       else LogInfo (''Deleted branch '' @ quoted current))
                                   w11))))))
        \<and> mergeCommand en keepOption w0 = (Return (), w')
        \<and> trace w' = trace w0 @ first
            @ [Exec (''git worktree remove '' @ quoted (process_cwd en)) None removeResult]
            @ (if exitCode removeResult \<noteq> 0
               then [LogWarn (''Failed to remove worktree: '' @ stderr removeResult)] else [])
            @ [Exec (''git branch -d '' @ quoted current) None deleteResult,
               (if exitCode deleteResult \<noteq> 0
                then LogWarn (''Failed to delete branch '' @ quoted current @ '': ''
                              @ stderr deleteResult)
                else LogInfo (''Deleted branch '' @ quoted current))]
            @ rest
        \<and> filter is_step first =
            [RunHooks beforeMerge,
             Exec (''git merge '' @ quoted current) (Some (path mainWorktree)) mergeResult,
             RunHooks beforeRemove]
        \<and> filter is_step rest =
            [RunHooks afterRemove, RunHooks afterMerge, ConsoleLog (path mainWorktree)])"
proof -
  let ?ctx = "\<lparr>repoRoot = root, defaultBranch = dflt, branchName = current,
               worktreePath = process_cwd en, sourceWorktree = None,
               targetWorktree = Some (path mainWorktree)\<rparr>"
  let ?merged = "LogSuccess (''Merged '' @ quoted current @ '' into '' @ quoted dflt)"
  let ?removing = "LogInfo (''Removing worktree at '' @ process_cwd en @ ''...'')"
  from merge_attempt_trace [OF inside root current dflt main hooks merge]
  obtain es where es: "trace w7 = trace w0 @ es"
    "filter is_step es =
       [RunHooks beforeMerge,
        Exec (''git merge '' @ quoted current) (Some (path mainWorktree)) mergeResult]"
    by auto
  have before: "w6 = runInOrder en ?ctx (hooksInOrder beforeMerge config)
      (emit (RunHooks beforeMerge) w5)"
    using hooks runHooks_runs_in_order [of en beforeMerge config ?ctx w5] by simp
  define w8 where "w8 = runInOrder en ?ctx (hooksInOrder beforeRemove config)
      (emit (RunHooks beforeRemove) (emit ?merged w7))"
  have h1: "runHooks en beforeRemove config ?ctx (emit ?merged w7) = (Return (), w8)"
    unfolding w8_def by (rule runHooks_runs_in_order)
  from runHooks_trace [OF h1]
  obtain hs1 where
    hs1: "trace w8 = trace w7 @ ?merged # RunHooks beforeRemove # hs1" "filter is_step hs1 = []"
    by auto
  obtain removeResult w9 where
    rm: "removeWorktree en (process_cwd en) (emit ?removing w8) = (removeResult, w9)"
    by (cases "removeWorktree en (process_cwd en) (emit ?removing w8)")
  let ?rmWarning = "if exitCode removeResult \<noteq> 0
      then [LogWarn (''Failed to remove worktree: '' @ stderr removeResult)] else []"
  define w10 where "w10 = (if exitCode removeResult \<noteq> 0
        then emit (LogWarn (''Failed to remove worktree: '' @ stderr removeResult)) w9
        else w9)"
  have t10: "trace w10 = trace w9 @ ?rmWarning"
    by (simp add: w10_def)
  from rm have t9: "trace w9 = trace w8
      @ [?removing, Exec (''git worktree remove '' @ quoted (process_cwd en)) None removeResult]"
    by (simp add: removeWorktree_def exec_trace)
  obtain deleteResult w11 where del: "deleteBranch en current w10 = (deleteResult, w11)"
    by (cases "deleteBranch en current w10")
  let ?delNote = "if exitCode deleteResult \<noteq> 0
      then LogWarn (''Failed to delete branch '' @ quoted current @ '': '' @ stderr deleteResult)
      else LogInfo (''Deleted branch '' @ quoted current)"
  from del have t11: "trace w11 = trace w10
      @ [Exec (''git branch -d '' @ quoted current) None deleteResult]"
    by (simp add: deleteBranch_def exec_trace)
  define w12 where "w12 = runInOrder en ?ctx (hooksInOrder afterRemove config)
      (emit (RunHooks afterRemove) (emit ?delNote w11))"
  have h2: "runHooks en afterRemove config ?ctx (emit ?delNote w11) = (Return (), w12)"
    unfolding w12_def by (rule runHooks_runs_in_order)
  from runHooks_trace [OF h2]
  obtain hs2 where
    hs2: "trace w12 = trace w11 @ ?delNote # RunHooks afterRemove # hs2" "filter is_step hs2 = []"
    by auto
  define w13 where "w13 = runInOrder en ?ctx (hooksInOrder afterMerge config)
      (emit (RunHooks afterMerge) w12)"
  have h3: "runHooks en afterMerge config ?ctx w12 = (Return (), w13)"
    unfolding w13_def by (rule runHooks_runs_in_order)
  from runHooks_trace [OF h3]
  obtain hs3 where
    hs3: "trace w13 = trace w12 @ RunHooks afterMerge # hs3" "filter is_step hs3 = []"
    by auto
  define w' where "w' = emit (ConsoleLog (path mainWorktree))
      (emit (LogSuccess (''Merged and cleaned up '' @ quoted current)) w13)"
  have noted: "(if exitCode deleteResult \<noteq> 0
        then emit (LogWarn (''Failed to delete branch '' @ quoted current @ '': ''
                            @ stderr deleteResult)) w11
        else emit (LogInfo (''Deleted branch '' @ quoted current)) w11) = emit ?delNote w11"
    by simp
  have keep: "(case keepOption of None \<Rightarrow> False | Some k \<Rightarrow> k) = False"
    using no_keep by (cases keepOption) auto
  have warned: "(if exitCode removeResult \<noteq> 0
        then emit (LogWarn (''Failed to remove worktree: '' @ stderr removeResult)) w9
        else w9) = w10"
    by (simp add: w10_def)
  have run: "mergeCommand en keepOption w0 = (Return (), w')"
    using inside root current dflt differ main config hooks merge merged keep
      h1 rm del h2 h3 warned noted
    by (simp add: mergeCommand_def Let_def obind_def lift_def tell_def ret_def throw_def
        load_def w'_def split: if_splits)
  let ?first = "es @ ?merged # RunHooks beforeRemove # hs1 @ [?removing]"
  let ?rest = "RunHooks afterRemove # hs2 @ RunHooks afterMerge # hs3
               @ [LogSuccess (''Merged and cleaned up '' @ quoted current),
                  ConsoleLog (path mainWorktree)]"
  have tr: "trace w' = trace w0 @ ?first
          @ [Exec (''git worktree remove '' @ quoted (process_cwd en)) None removeResult]
          @ ?rmWarning
          @ [Exec (''git branch -d '' @ quoted current) None deleteResult, ?delNote]
          @ ?rest"
    using es hs1 t9 t10 t11 hs2 hs3 by (simp add: w'_def)
  have f1: "filter is_step ?first =
      [RunHooks beforeMerge,
       Exec (''git merge '' @ quoted current) (Some (path mainWorktree)) mergeResult,
       RunHooks beforeRemove]"
    using es hs1 by simp
  have f2: "filter is_step ?rest =
      [RunHooks afterRemove, RunHooks afterMerge, ConsoleLog (path mainWorktree)]"
    using hs2 hs3 by simp
  have rm': "removeWorktree en (process_cwd en)
      (emit ?removing
         (runInOrder en ?ctx (hooksInOrder beforeRemove config)
            (emit (RunHooks beforeRemove) (emit ?merged w7))))
      = (removeResult, w9)"
    using rm by (simp add: w8_def)
  have del': "deleteBranch en current
      (if exitCode removeResult \<noteq> 0
       then emit (LogWarn (''Failed to remove worktree: '' @ stderr removeResult)) w9
       else w9)
      = (deleteResult, w11)"
    using del by (simp only: w10_def)
  have final: "w' = emit (ConsoleLog (path mainWorktree))
      (emit (LogSuccess (''Merged and cleaned up '' @ quoted current))
         (runInOrder en ?ctx (hooksInOrder afterMerge config)
            (emit (RunHooks afterMerge)
               (runInOrder en ?ctx (hooksInOrder afterRemove config)
                  (emit (RunHooks afterRemove) (emit ?delNote w11))))))"
    by (simp only: w'_def w13_def w12_def)
  from rm' del' final run tr f1 f2
  have "\<exists>removeResult w9 deleteResult w11 first rest w'.
          removeWorktree en (process_cwd en)
            (emit ?removing
               (runInOrder en ?ctx (hooksInOrder beforeRemove config)
                  (emit (RunHooks beforeRemove) (emit ?merged w7))))
            = (removeResult, w9)
        \<and> deleteBranch en current
            (if exitCode removeResult \<noteq> 0
             then emit (LogWarn (''Failed to remove worktree: '' @ stderr removeResult)) w9
             else w9)
            = (deleteResult, w11)
        \<and> w' = emit (ConsoleLog (path mainWorktree))
                 (emit (LogSuccess (''Merged and cleaned up '' @ quoted current))
                    (runInOrder en ?ctx (hooksInOrder afterMerge config)
                       (emit (RunHooks afterMerge)
                          (runInOrder en ?ctx (hooksInOrder afterRemove config)
                             (emit (RunHooks afterRemove)
                                (emit (if exitCode deleteResult \<noteq> 0
                                       then LogWarn (''Failed to delete branch '' @ quoted current
                                                     @ '': '' @ stderr deleteResult)
                                       else LogInfo (''Deleted branch '' @ quoted current))
                                   w11))))))
        \<and> mergeCommand en keepOption w0 = (Return (), w')
        \<and> trace w' = trace w0 @ first
            @ [Exec (''git worktree remove '' @ quoted (process_cwd en)) None removeResult]
            @ (if exitCode removeResult \<noteq> 0
               then [LogWarn (''Failed to remove worktree: '' @ stderr removeResult)] else [])
            @ [Exec (''git branch -d '' @ quoted current) None deleteResult,
               (if exitCode deleteResult \<noteq> 0
                then LogWarn (''Failed to delete branch '' @ quoted current @ '': ''
                              @ stderr deleteResult)
                else LogInfo (''Deleted branch '' @ quoted current))]
            @ rest
        \<and> filter is_step first =
            [RunHooks beforeMerge,
             Exec (''git merge '' @ quoted current) (Some (path mainWorktree)) mergeResult,
             RunHooks beforeRemove]
        \<and> filter is_step rest =
            [RunHooks afterRemove, RunHooks afterMerge, ConsoleLog (path mainWorktree)]"
    by (intro exI conjI)
  with before show ?thesis by (rule conjI)
qed

text \<open>In the repository of the fixtures, with a merge that succeeds and \<^verbatim>\<open>--keep\<close>: the array
  shows the hooks that were executed and the one command that was run, in order.\<close>

theorem merge_keep_leaves_worktree_and_branch_witness:
  "fst (mergeCommand (testEnv ''/home/u/proj-feature-x'' ''feature-x'' 0 0) (Some True) start)
     = Return ()
   \<and> ext (snd (mergeCommand (testEnv ''/home/u/proj-feature-x'' ''feature-x'' 0 0) (Some True) start))
     = [''plugin beforeMerge'', ''inline beforeMerge'', ''git merge '' @ quoted ''feature-x'',
        ''plugin afterMerge'', ''inline afterMerge'']
   \<and> filter is_step
       (trace (snd (mergeCommand (testEnv ''/home/u/proj-feature-x'' ''feature-x'' 0 0) (Some True) start)))
     = [RunHooks beforeMerge,
        Exec (''git merge '' @ quoted ''feature-x'') (Some ''/home/u/proj'')
          (success ''Already up to date.''),
        RunHooks afterMerge,
        ConsoleLog ''/home/u/proj'']"
proof -
  let ?en = "testEnv ''/home/u/proj-feature-x'' ''feature-x'' 0 0"
  let ?mw = "\<lparr>path = ''/home/u/proj'', branch = Some ''main'', isDetached = False\<rparr>"
  let ?ctx = "\<lparr>repoRoot = ''/home/u/proj-feature-x'', defaultBranch = ''main'',
               branchName = ''feature-x'', worktreePath = process_cwd ?en,
               sourceWorktree = None, targetWorktree = Some (path ?mw)\<rparr>"
  let ?w1 = "snd (assertInsideGitRepo ?en start)"
  let ?w2 = "snd (getRepoRoot ?en ?w1)"
  let ?w3 = "snd (getCurrentBranch ?en ?w2)"
  let ?w4 = "snd (getDefaultBranch ?en ?w3)"
  let ?w5 = "snd (getMainWorktree ?en ?w4)"
  let ?w6 = "snd (runHooks ?en beforeMerge testConfig ?ctx ?w5)"
  let ?w7 = "snd (mergeBranch ?en ''feature-x'' (path ?mw)
      (emit (LogInfo (''Merging '' @ quoted ''feature-x'' @ '' into '' @ quoted ''main'' @ ''...'')) ?w6))"
  have inside: "assertInsideGitRepo ?en start = (Return (), ?w1)"
    by code_simp
  have root: "getRepoRoot ?en ?w1 = (Return ''/home/u/proj-feature-x'', ?w2)"
    by code_simp
  have current: "getCurrentBranch ?en ?w2 = (Return ''feature-x'', ?w3)"
    by code_simp
  have dflt: "getDefaultBranch ?en ?w3 = (''main'', ?w4)"
    by code_simp
  have differ: "''feature-x'' \<noteq> ''main''"
    by simp
  have main: "getMainWorktree ?en ?w4 = (Return ?mw, ?w5)"
    by code_simp
  have config: "loadConfig ?en (process_cwd ?en) (ext ?w5) = Inr testConfig"
    by (simp add: testEnv_def)
  have hooks: "runHooks ?en beforeMerge testConfig ?ctx ?w5 = (Return (), ?w6)"
    by code_simp
  have merge: "mergeBranch ?en ''feature-x'' (path ?mw)
      (emit (LogInfo (''Merging '' @ quoted ''feature-x'' @ '' into '' @ quoted ''main'' @ ''...'')) ?w6)
      = (success ''Already up to date.'', ?w7)"
    by code_simp
  have merged: "exitCode (success ''Already up to date.'') = 0"
    by (simp add: success_def)
  let ?final = "emit (ConsoleLog (path ?mw))
      (runInOrder ?en ?ctx (hooksInOrder afterMerge testConfig)
        (emit (RunHooks afterMerge)
          (emit (LogInfo ''Kept worktree and branch (--keep flag)'')
            (emit (LogSuccess (''Merged '' @ quoted ''feature-x'' @ '' into '' @ quoted ''main''))
              ?w7))))"
  note kept = merge_keep_leaves_worktree_and_branch
    [OF inside root current dflt differ main config hooks merge merged refl]
  from kept have run: "mergeCommand ?en (Some True) start = (Return (), ?final)"
    by blast
  from kept have steps: "\<exists>es w'. mergeCommand ?en (Some True) start = (Return (), w')
      \<and> trace w' = trace start @ es
      \<and> filter is_step es =
          [RunHooks beforeMerge,
           Exec (''git merge '' @ quoted ''feature-x'') (Some (path ?mw))
             (success ''Already up to date.''),
           RunHooks afterMerge,
           ConsoleLog (path ?mw)]"
    by blast
  have outside: "ext ?final =
      [''plugin beforeMerge'', ''inline beforeMerge'', ''git merge '' @ quoted ''feature-x'',
       ''plugin afterMerge'', ''inline afterMerge'']"
    by code_simp
  from steps have "filter is_step (trace (snd (mergeCommand ?en (Some True) start))) =
      [RunHooks beforeMerge,
       Exec (''git merge '' @ quoted ''feature-x'') (Some ''/home/u/proj'')
         (success ''Already up to date.''),
       RunHooks afterMerge,
       ConsoleLog ''/home/u/proj'']"
    by (auto simp add: start_def)
  with run outside show ?thesis by simp
qed

text \<open>In the repository of the fixtures, with a merge that succeeds and a worktree removal
  that exits with 1: the array shows the hooks that were executed and the commands that
  were run, in order; the removal is warned about, the branch is deleted all the same, and
  the hooks of both events after it are executed.\<close>

theorem merge_success_cleans_up_in_order_witness:
  "fst (mergeCommand (testEnv ''/home/u/proj-feature-x'' ''feature-x'' 0 1) None start) = Return ()
   \<and> ext (snd (mergeCommand (testEnv ''/home/u/proj-feature-x'' ''feature-x'' 0 1) None start))
     = [''plugin beforeMerge'', ''inline beforeMerge'', ''git merge '' @ quoted ''feature-x'',
        ''plugin beforeRemove'', ''inline beforeRemove'',
        ''git worktree remove '' @ quoted ''/home/u/proj-feature-x'',
        ''git branch -d '' @ quoted ''feature-x'',
        ''plugin afterRemove'', ''inline afterRemove'',
        ''plugin afterMerge'', ''inline afterMerge'']
   \<and> filter is_step
       (trace (snd (mergeCommand (testEnv ''/home/u/proj-feature-x'' ''feature-x'' 0 1) None start)))
     = [RunHooks beforeMerge,
        Exec (''git merge '' @ quoted ''feature-x'') (Some ''/home/u/proj'')
          (success ''Already up to date.''),
        RunHooks beforeRemove,
        Exec (''git worktree remove '' @ quoted ''/home/u/proj-feature-x'') None
          (failure 1 ''fatal: contains modified or untracked files''),
        Exec (''git branch -d '' @ quoted ''feature-x'') None (success []),
        RunHooks afterRemove,
        RunHooks afterMerge,
        ConsoleLog ''/home/u/proj'']
   \<and> warnings
       (trace (snd (mergeCommand (testEnv ''/home/u/proj-feature-x'' ''feature-x'' 0 1) None start)))
     = [''Failed to remove worktree: fatal: contains modified or untracked files'']"
proof -
  let ?en = "testEnv ''/home/u/proj-feature-x'' ''feature-x'' 0 1"
  let ?mw = "\<lparr>path = ''/home/u/proj'', branch = Some ''main'', isDetached = False\<rparr>"
  let ?ctx = "\<lparr>repoRoot = ''/home/u/proj-feature-x'', defaultBranch = ''main'',
               branchName = ''feature-x'', worktreePath = process_cwd ?en,
               sourceWorktree = None, targetWorktree = Some (path ?mw)\<rparr>"
  let ?w1 = "snd (assertInsideGitRepo ?en start)"
  let ?w2 = "snd (getRepoRoot ?en ?w1)"
  let ?w3 = "snd (getCurrentBranch ?en ?w2)"
  let ?w4 = "snd (getDefaultBranch ?en ?w3)"
  let ?w5 = "snd (getMainWorktree ?en ?w4)"
  let ?w6 = "snd (runHooks ?en beforeMerge testConfig ?ctx ?w5)"
  let ?w7 = "snd (mergeBranch ?en ''feature-x'' (path ?mw)
      (emit (LogInfo (''Merging '' @ quoted ''feature-x'' @ '' into '' @ quoted ''main'' @ ''...'')) ?w6))"
  have inside: "assertInsideGitRepo ?en start = (Return (), ?w1)"
    by code_simp
  have root: "getRepoRoot ?en ?w1 = (Return ''/home/u/proj-feature-x'', ?w2)"
    by code_simp
  have current: "getCurrentBranch ?en ?w2 = (Return ''feature-x'', ?w3)"
    by code_simp
  have dflt: "getDefaultBranch ?en ?w3 = (''main'', ?w4)"
    by code_simp
  have differ: "''feature-x'' \<noteq> ''main''"
    by simp
  have main: "getMainWorktree ?en ?w4 = (Return ?mw, ?w5)"
    by code_simp
  have config: "loadConfig ?en (process_cwd ?en) (ext ?w5) = Inr testConfig"
    by (simp add: testEnv_def)
  have hooks: "runHooks ?en beforeMerge testConfig ?ctx ?w5 = (Return (), ?w6)"
    by code_simp
  have merge: "mergeBranch ?en ''feature-x'' (path ?mw)
      (emit (LogInfo (''Merging '' @ quoted ''feature-x'' @ '' into '' @ quoted ''main'' @ ''...'')) ?w6)
      = (success ''Already up to date.'', ?w7)"
    by code_simp
  have merged: "exitCode (success ''Already up to date.'') = 0"
    by (simp add: success_def)
  have no_keep: "(None :: bool option) \<noteq> Some True"
    by simp
  let ?rr = "failure 1 ''fatal: contains modified or untracked files''"
  let ?dr = "success []"
  let ?x8 = "emit (LogInfo (''Removing worktree at '' @ process_cwd ?en @ ''...''))
      (runInOrder ?en ?ctx (hooksInOrder beforeRemove testConfig)
        (emit (RunHooks beforeRemove)
          (emit (LogSuccess (''Merged '' @ quoted ''feature-x'' @ '' into '' @ quoted ''main''))
            ?w7)))"
  let ?w9 = "snd (removeWorktree ?en (process_cwd ?en) ?x8)"
  let ?x10 = "emit (LogWarn (''Failed to remove worktree: '' @ stderr ?rr)) ?w9"
  let ?w11 = "snd (deleteBranch ?en ''feature-x'' ?x10)"
  let ?final = "emit (ConsoleLog (path ?mw))
      (emit (LogSuccess (''Merged and cleaned up '' @ quoted ''feature-x''))
        (runInOrder ?en ?ctx (hooksInOrder afterMerge testConfig)
          (emit (RunHooks afterMerge)
            (runInOrder ?en ?ctx (hooksInOrder afterRemove testConfig)
              (emit (RunHooks afterRemove)
                (emit (LogInfo (''Deleted branch '' @ quoted ''feature-x'')) ?w11))))))"
  have rm: "removeWorktree ?en (process_cwd ?en) ?x8 = (?rr, ?w9)"
    by code_simp
  have del: "deleteBranch ?en ''feature-x'' ?x10 = (?dr, ?w11)"
    by code_simp
  from merge_success_cleans_up_in_order
    [OF inside root current dflt differ main config hooks merge merged no_keep]
  obtain removeResult w9 deleteResult w11 w' where
    rm': "removeWorktree ?en (process_cwd ?en) ?x8 = (removeResult, w9)"
    and del': "deleteBranch ?en ''feature-x''
        (if exitCode removeResult \<noteq> 0
         then emit (LogWarn (''Failed to remove worktree: '' @ stderr removeResult)) w9
         else w9)
        = (deleteResult, w11)"
    and final: "w' = emit (ConsoleLog (path ?mw))
        (emit (LogSuccess (''Merged and cleaned up '' @ quoted ''feature-x''))
          (runInOrder ?en ?ctx (hooksInOrder afterMerge testConfig)
            (emit (RunHooks afterMerge)
              (runInOrder ?en ?ctx (hooksInOrder afterRemove testConfig)
                (emit (RunHooks afterRemove)
                  (emit (if exitCode deleteResult \<noteq> 0
                         then LogWarn (''Failed to delete branch '' @ quoted ''feature-x''
                                       @ '': '' @ stderr deleteResult)
                         else LogInfo (''Deleted branch '' @ quoted ''feature-x''))
                     w11))))))"
    and run: "mergeCommand ?en None start = (Return (), w')"
    by blast
  from rm rm' have removed: "removeResult = ?rr" "w9 = ?w9"
    by simp_all
  have "exitCode ?rr \<noteq> 0"
    by (simp add: failure_def)
  with del' removed have "deleteBranch ?en ''feature-x'' ?x10 = (deleteResult, w11)"
    by simp
  with del have deleted: "deleteResult = ?dr" "w11 = ?w11"
    by simp_all
  have "exitCode ?dr = 0"
    by (simp add: success_def)
  with final deleted have w': "w' = ?final"
    by simp
  have outside: "ext ?final =
      [''plugin beforeMerge'', ''inline beforeMerge'', ''git merge '' @ quoted ''feature-x'',
       ''plugin beforeRemove'', ''inline beforeRemove'',
       ''git worktree remove '' @ quoted ''/home/u/proj-feature-x'',
       ''git branch -d '' @ quoted ''feature-x'',
       ''plugin afterRemove'', ''inline afterRemove'',
       ''plugin afterMerge'', ''inline afterMerge'']"
    by code_simp
  have steps: "filter is_step (trace ?final) =
      [RunHooks beforeMerge,
       Exec (''git merge '' @ quoted ''feature-x'') (Some ''/home/u/proj'')
         (success ''Already up to date.''),
       RunHooks beforeRemove,
       Exec (''git worktree remove '' @ quoted ''/home/u/proj-feature-x'') None
         (failure 1 ''fatal: contains modified or untracked files''),
       Exec (''git branch -d '' @ quoted ''feature-x'') None (success []),
       RunHooks afterRemove,
       RunHooks afterMerge,
       ConsoleLog ''/home/u/proj'']"
    by code_simp
  have warned: "warnings (trace ?final) =
      [''Failed to remove worktree: fatal: contains modified or untracked files'']"
    by code_simp
  from run w' have "mergeCommand ?en None start = (Return (), ?final)"
    by simp
  with outside steps warned show ?thesis
    by simp
qed

lemma mergeCommand_at_guard:
  assumes inside: "assertInsideGitRepo en w0 = (Return (), w1)"
    and root: "getRepoRoot en w1 = (Return root, w2)"
    and current: "getCurrentBranch en w2 = (Return b, w3)"
    and dflt: "getDefaultBranch en w3 = (b, w4)"
  shows "mergeCommand en keepOption w0 =
           (Throw (WtError (''Already on '' @ b @ '', nothing to merge'') 1), w4)"
  using inside root current dflt
  by (simp add: mergeCommand_def Let_def obind_def lift_def throw_def)

text \<open>
  C6, as the code has it. A merge started while the current branch is the default branch:
  the command throws \<^verbatim>\<open>Already on ..., nothing to merge\<close> at the guard. Everything it has
  done by then is to ask git whether this is a repository, for its root, for the current
  branch and for the default branch: each event of its trace is such a query. No hook
  runs, no merge, removal or deletion is issued, nothing is logged and nothing is written
  to the success channel.
\<close>

theorem merge_on_default_branch_fails_at_guard:
  assumes inside: "assertInsideGitRepo en w0 = (Return (), w1)"
    and root: "getRepoRoot en w1 = (Return root, w2)"
    and current: "getCurrentBranch en w2 = (Return b, w3)"
    and dflt: "getDefaultBranch en w3 = (b, w4)"
  shows "mergeCommand en keepOption w0 =
           (Throw (WtError (''Already on '' @ b @ '', nothing to merge'') 1), w4)
      \<and> (\<exists>qs. trace w4 = trace w0 @ qs \<and> list_all is_query_event qs \<and> filter is_step qs = [])"
proof -
  have "mergeCommand en keepOption w0 =
      (Throw (WtError (''Already on '' @ b @ '', nothing to merge'') 1), w4)"
    by (rule mergeCommand_at_guard [OF inside root current dflt])
  moreover from assertInsideGitRepo_trace [OF inside]
  obtain q1 where q1: "trace w1 = trace w0 @ q1" "list_all is_query_event q1" by auto
  from getRepoRoot_trace [OF root]
  obtain q2 where q2: "trace w2 = trace w1 @ q2" "list_all is_query_event q2" by auto
  from getCurrentBranch_trace [OF current]
  obtain q3 where q3: "trace w3 = trace w2 @ q3" "list_all is_query_event q3" by auto
  from getDefaultBranch_trace [OF dflt]
  obtain q4 where q4: "trace w4 = trace w3 @ q4" "list_all is_query_event q4" by auto
  from q1 q2 q3 q4 have "trace w4 = trace w0 @ (q1 @ q2 @ q3 @ q4)"
    "list_all is_query_event (q1 @ q2 @ q3 @ q4)"
    "filter is_step (q1 @ q2 @ q3 @ q4) = []"
    by (simp_all add: queries_no_step)
  ultimately show ?thesis by blast
qed

text \<open>In the repository of the fixtures, started in the primary worktree, on \<^verbatim>\<open>main\<close>.\<close>

theorem merge_on_default_branch_fails_at_guard_witness:
  "fst (mergeCommand (testEnv ''/home/u/proj'' ''main'' 0 0) None start)
     = Throw (WtError ''Already on main, nothing to merge'' 1)
   \<and> (\<exists>qs. trace (snd (mergeCommand (testEnv ''/home/u/proj'' ''main'' 0 0) None start)) = qs
          \<and> list_all is_query_event qs \<and> filter is_step qs = [])"
proof -
  let ?en = "testEnv ''/home/u/proj'' ''main'' 0 0"
  let ?w1 = "snd (assertInsideGitRepo ?en start)"
  let ?w2 = "snd (getRepoRoot ?en ?w1)"
  let ?w3 = "snd (getCurrentBranch ?en ?w2)"
  let ?w4 = "snd (getDefaultBranch ?en ?w3)"
  have inside: "assertInsideGitRepo ?en start = (Return (), ?w1)"
    by code_simp
  have root: "getRepoRoot ?en ?w1 = (Return ''/home/u/proj'', ?w2)"
    by code_simp
  have current: "getCurrentBranch ?en ?w2 = (Return ''main'', ?w3)"
    by code_simp
  have dflt: "getDefaultBranch ?en ?w3 = (''main'', ?w4)"
    by code_simp
  show ?thesis
    using merge_on_default_branch_fails_at_guard [OF inside root current dflt, of None]
    by (simp add: start_def)
qed

text \<open>
  C6 as stated fails: the command does call git before it reaches the guard. Started on
  \<^verbatim>\<open>main\<close> in the repository of the fixtures, it has run five git commands by the time it
  throws.
\<close>

theorem merge_guard_calls_git_counterexample:
  "mergeCommand (testEnv ''/home/u/proj'' ''main'' 0 0) None start =
     (Throw (WtError ''Already on main, nothing to merge'' 1),
      \<lparr>ext = [],
       trace = [Exec ''git rev-parse --is-inside-work-tree'' None (success ''true''),
                Exec ''git rev-parse --show-toplevel'' None (success ''/home/u/proj''),
                Exec ''git symbolic-ref --quiet --short HEAD'' None (success ''main''),
                Exec ''git symbolic-ref --quiet refs/remotes/origin/HEAD'' None (failure 1 []),
                Exec ''git show-ref --verify --quiet refs/heads/main'' None (success [])]\<rparr>)"
proof -
  let ?en = "testEnv ''/home/u/proj'' ''main'' 0 0"
  let ?w1 = "snd (assertInsideGitRepo ?en start)"
  let ?w2 = "snd (getRepoRoot ?en ?w1)"
  let ?w3 = "snd (getCurrentBranch ?en ?w2)"
  let ?w4 = "snd (getDefaultBranch ?en ?w3)"
  have inside: "assertInsideGitRepo ?en start = (Return (), ?w1)"
    by code_simp
  have root: "getRepoRoot ?en ?w1 = (Return ''/home/u/proj'', ?w2)"
    by code_simp
  have current: "getCurrentBranch ?en ?w2 = (Return ''main'', ?w3)"
    by code_simp
  have dflt: "getDefaultBranch ?en ?w3 = (''main'', ?w4)"
    by code_simp
  have final: "?w4 =
      \<lparr>ext = [],
       trace = [Exec ''git rev-parse --is-inside-work-tree'' None (success ''true''),
                Exec ''git rev-parse --show-toplevel'' None (success ''/home/u/proj''),
                Exec ''git symbolic-ref --quiet --short HEAD'' None (success ''main''),
                Exec ''git symbolic-ref --quiet refs/remotes/origin/HEAD'' None (failure 1 []),
                Exec ''git show-ref --verify --quiet refs/heads/main'' None (success [])]\<rparr>"
    by code_simp
  have "mergeCommand ?en None start =
      (Throw (WtError (''Already on '' @ ''main'' @ '', nothing to merge'') 1), ?w4)"
    by (rule mergeCommand_at_guard [OF inside root current dflt])
  with final show ?thesis by simp
qed

section \<open>The remove workflow\<close>

text \<open>The run of \<^verbatim>\<open>removeCommand\<close> up to the search for the worktree by name: queries only.\<close>

lemma remove_resolution_trace:
  assumes inside: "assertInsideGitRepo en w0 = (Return (), w1)"
    and root: "getRepoRoot en w1 = (Return root, w2)"
    and dflt: "getDefaultBranch en w2 = (dflt, w3)"
    and found: "findWorktreeByBranch en n w3 = (found, w4)"
  shows "\<exists>qs. trace w4 = trace w0 @ qs \<and> list_all is_query_event qs \<and> filter is_step qs = []"
proof -
  from assertInsideGitRepo_trace [OF inside]
  obtain q1 where q1: "trace w1 = trace w0 @ q1" "list_all is_query_event q1" by auto
  from getRepoRoot_trace [OF root]
  obtain q2 where q2: "trace w2 = trace w1 @ q2" "list_all is_query_event q2" by auto
  from getDefaultBranch_trace [OF dflt]
  obtain q3 where q3: "trace w3 = trace w2 @ q3" "list_all is_query_event q3" by auto
  from findWorktreeByBranch_trace [OF found]
  obtain q4 where q4: "trace w4 = trace w3 @ q4" "list_all is_query_event q4" by auto
  from q1 q2 q3 q4 have "trace w4 = trace w0 @ (q1 @ q2 @ q3 @ q4)"
    "list_all is_query_event (q1 @ q2 @ q3 @ q4)"
    "filter is_step (q1 @ q2 @ q3 @ q4) = []"
    by (simp_all add: queries_no_step)
  then show ?thesis by blast
qed

text \<open>
  C7. A removal whose worktree, found by its branch name, is on the default branch: the
  command throws \<^verbatim>\<open>OnDefaultBranchError\<close>, whatever the force flag is. All it has done by
  then is to query git: it has not asked for confirmation, run a hook, removed a worktree
  or deleted a branch.
\<close>

theorem remove_default_branch_is_rejected:
  assumes inside: "assertInsideGitRepo en w0 = (Return (), w1)"
    and root: "getRepoRoot en w1 = (Return root, w2)"
    and dflt: "getDefaultBranch en w2 = (dflt, w3)"
    and named: "n \<noteq> []"
    and found: "findWorktreeByBranch en n w3 = (Some worktree, w4)"
    and on_default: "branch worktree = Some dflt"
  shows "removeCommand en (Some n) forceOption w0 = (Throw (OnDefaultBranchError ''remove''), w4)
      \<and> (\<exists>qs. trace w4 = trace w0 @ qs \<and> list_all is_query_event qs \<and> filter is_step qs = [])"
proof -
  have "removeCommand en (Some n) forceOption w0 = (Throw (OnDefaultBranchError ''remove''), w4)"
    using inside root dflt named found on_default
    by (simp add: removeCommand_def Let_def obind_def lift_def ret_def throw_def)
  with remove_resolution_trace [OF inside root dflt found] show ?thesis by blast
qed

text \<open>The test \<^verbatim>\<open>throws error when trying to remove default branch\<close> of
  commands/remove.test.ts, with the force flag set, unset and missing.\<close>

theorem remove_default_branch_is_rejected_witness:
  "fst (removeCommand (testEnv ''/home/u/proj'' ''main'' 0 0) (Some ''main'') (Some True) start)
     = Throw (OnDefaultBranchError ''remove'')
   \<and> fst (removeCommand (testEnv ''/home/u/proj'' ''main'' 0 0) (Some ''main'') (Some False) start)
     = Throw (OnDefaultBranchError ''remove'')
   \<and> fst (removeCommand (testEnv ''/home/u/proj'' ''main'' 0 0) (Some ''main'') None start)
     = Throw (OnDefaultBranchError ''remove'')
   \<and> (\<exists>qs. trace (snd (removeCommand (testEnv ''/home/u/proj'' ''main'' 0 0) (Some ''main'')
                         (Some True) start)) = qs
          \<and> list_all is_query_event qs \<and> filter is_step qs = [])"
proof -
  let ?en = "testEnv ''/home/u/proj'' ''main'' 0 0"
  let ?wt = "\<lparr>path = ''/home/u/proj'', branch = Some ''main'', isDetached = False\<rparr>"
  let ?w1 = "snd (assertInsideGitRepo ?en start)"
  let ?w2 = "snd (getRepoRoot ?en ?w1)"
  let ?w3 = "snd (getDefaultBranch ?en ?w2)"
  let ?w4 = "snd (findWorktreeByBranch ?en ''main'' ?w3)"
  have inside: "assertInsideGitRepo ?en start = (Return (), ?w1)"
    by code_simp
  have root: "getRepoRoot ?en ?w1 = (Return ''/home/u/proj'', ?w2)"
    by code_simp
  have dflt: "getDefaultBranch ?en ?w2 = (''main'', ?w3)"
    by code_simp
  have named: "''main'' \<noteq> []"
    by simp
  have found: "findWorktreeByBranch ?en ''main'' ?w3 = (Some ?wt, ?w4)"
    by code_simp
  have on_default: "branch ?wt = Some ''main''"
    by simp
  note rejected = remove_default_branch_is_rejected [OF inside root dflt named found on_default]
  show ?thesis
    using rejected [of "Some True"] rejected [of "Some False"] rejected [of None]
    by (simp add: start_def)
qed











section \<open>The create workflow: the path of the new worktree\<close>

lemma split_on_not_Nil: "split_on c s \<noteq> []"
  by (induction s) (auto split: list.splits)

lemma split_on_append:
  "split_on c (xs @ c # ys) = split_on c xs @ split_on c ys"
proof (induction xs)
  case Nil
  show ?case by simp
next
  case (Cons x xs)
  obtain y ys' where "split_on c xs = y # ys'"
    using split_on_not_Nil [of c xs] by (cases "split_on c xs") auto
  with Cons show ?case by simp
qed

lemma split_on_none: "c \<notin> set s \<Longrightarrow> split_on c s = [s]"
  by (induction s) auto

lemma split_on_join_slash:
  assumes "list_all clean_segment segs" "segs \<noteq> []"
  shows "split_on (CHR ''/'') (join_slash segs) = segs"
  using assms
proof (induction segs rule: join_slash.induct)
  case 1
  then show ?case by simp
next
  case (2 s)
  then show ?case by (simp add: clean_segment_def split_on_none)
next
  case (3 s t ss)
  then show ?case
    by (simp add: clean_segment_def split_on_append split_on_none)
qed

lemma normalize_segments_clean:
  "list_all clean_segment segs \<Longrightarrow>
     normalize_segments acc (segs @ tail) = normalize_segments (rev segs @ acc) tail"
  by (induction segs arbitrary: acc) (auto simp add: clean_segment_def)

text \<open>Resolving \<^verbatim>\<open>../leaf\<close> against a normal absolute path replaces its last component.\<close>

lemma resolve_parent_sibling:
  assumes "list_all clean_segment (parentSegs @ [dirName])" "clean_segment leaf"
  shows "path_resolve (CHR ''/'' # join_slash (parentSegs @ [dirName])) (''../'' @ leaf)
       = CHR ''/'' # join_slash (parentSegs @ [leaf])"
proof -
  let ?segs = "parentSegs @ [dirName]"
  have sp: "split_on (CHR ''/'') ((CHR ''/'' # join_slash ?segs) @ ''/'' @ ''../'' @ leaf)
      = [] # ?segs @ [''..'', leaf]"
  proof -
    have "(CHR ''/'' # join_slash ?segs) @ ''/'' @ ''../'' @ leaf
        = [] @ CHR ''/'' # (join_slash ?segs @ CHR ''/'' # (''..'' @ CHR ''/'' # leaf))"
      by simp
    then show ?thesis
      using assms
      by (simp only: split_on_append)
         (simp add: split_on_join_slash split_on_none clean_segment_def)
  qed
  have "normalize_segments [] ([] # ?segs @ [''..'', leaf]) = parentSegs @ [leaf]"
    using assms(1) normalize_segments_clean [of ?segs "[]" "[''..'', leaf]"] assms(2)
    by (simp add: clean_segment_def)
  with sp show ?thesis
    by (simp add: path_resolve_def)
qed

lemma default_pattern_substituted:
  "resolveWorktreePath ''../{repo}-{branch}'' ''proj'' ''feature-x'' parent = ''../proj-feature-x''"
  by (simp add: resolveWorktreePath_def replace_all_def starts_with_def)

text \<open>
  C9, as the code has it. With the pattern \<^verbatim>\<open>../{repo}-{branch}\<close>, the repository name
  \<^verbatim>\<open>proj\<close> and the branch \<^verbatim>\<open>feature-x\<close>, the tokens are substituted to
  \<^verbatim>\<open>../proj-feature-x\<close>, whatever the parent directory is. The path of the worktree is that
  string resolved against the working directory of the invocation, whatever the
  repository root is: for a normal working directory it is the working directory with
  its last component replaced by \<^verbatim>\<open>proj-feature-x\<close>, which is the sibling of the repository
  when the command is started at the repository root.
\<close>

theorem create_path_resolves_against_cwd:
  assumes "list_all clean_segment (parentSegs @ [dirName])"
  shows "resolveWorktreePath ''../{repo}-{branch}'' ''proj'' ''feature-x'' parent
           = ''../proj-feature-x''
      \<and> worktreePathFor dir root ''proj'' ''feature-x'' ''../{repo}-{branch}''
           = path_resolve dir ''../proj-feature-x''
      \<and> worktreePathFor (CHR ''/'' # join_slash (parentSegs @ [dirName])) root
             ''proj'' ''feature-x'' ''../{repo}-{branch}''
           = CHR ''/'' # join_slash (parentSegs @ [''proj-feature-x''])"
proof -
  have leaf: "clean_segment ''proj-feature-x''"
    by (simp add: clean_segment_def)
  have "worktreePathFor d root ''proj'' ''feature-x'' ''../{repo}-{branch}''
      = path_resolve d ''../proj-feature-x''" for d
    by (simp add: worktreePathFor_def Let_def default_pattern_substituted)
  with resolve_parent_sibling [OF assms leaf] default_pattern_substituted [of parent]
  show ?thesis by simp
qed

text \<open>Started at the root of the repository \<^verbatim>\<open>/home/u/proj\<close>.\<close>

theorem create_path_resolves_against_cwd_witness:
  "resolveWorktreePath ''../{repo}-{branch}'' ''proj'' ''feature-x'' ''/home/u''
     = ''../proj-feature-x''
   \<and> worktreePathFor ''/home/u/proj'' ''/home/u/proj'' ''proj'' ''feature-x'' ''../{repo}-{branch}''
     = ''/home/u/proj-feature-x''"
proof -
  have "list_all clean_segment ([''home'', ''u''] @ [''proj''])"
    by (simp add: clean_segment_def)
  from create_path_resolves_against_cwd
    [OF this, of "''/home/u''" "''/home/u/proj''" "''/home/u/proj''"]
  have "resolveWorktreePath ''../{repo}-{branch}'' ''proj'' ''feature-x'' ''/home/u''
          = ''../proj-feature-x''"
    and "worktreePathFor (CHR ''/'' # join_slash ([''home'', ''u''] @ [''proj''])) ''/home/u/proj''
           ''proj'' ''feature-x'' ''../{repo}-{branch}''
          = CHR ''/'' # join_slash ([''home'', ''u''] @ [''proj-feature-x''])"
    by blast+
  then show ?thesis by simp
qed

text \<open>
  C9 as stated fails. Started at the repository root \<^verbatim>\<open>/home/u/proj\<close>, the path is
  \<^verbatim>\<open>/home/u/proj-feature-x\<close>, while \<^verbatim>\<open>../proj-feature-x\<close> resolved against the parent of
  the repository is \<^verbatim>\<open>/home/proj-feature-x\<close>. Started in the subdirectory \<^verbatim>\<open>src\<close> of the
  repository, the path is \<^verbatim>\<open>/home/u/proj/proj-feature-x\<close>: a directory inside the
  repository, not a sibling of it.
\<close>

theorem create_path_not_relative_to_parent_counterexample:
  "worktreePathFor ''/home/u/proj'' ''/home/u/proj'' ''proj'' ''feature-x'' ''../{repo}-{branch}''
     = ''/home/u/proj-feature-x''
   \<and> path_resolve (path_dirname ''/home/u/proj'') ''../proj-feature-x'' = ''/home/proj-feature-x''
   \<and> worktreePathFor ''/home/u/proj/src'' ''/home/u/proj'' ''proj'' ''feature-x'' ''../{repo}-{branch}''
     = ''/home/u/proj/proj-feature-x''
   \<and> path_dirname ''/home/u/proj/proj-feature-x'' = ''/home/u/proj''"
  by code_simp

end
